theory Spec2Isabelle
  imports Complex_Main
begin

section \<open>Errors and small numeric helpers\<close>

text \<open>The Python exceptions the modelled code can raise, as values.\<close>

datatype error =
    KeyError string
  | AttributeError string
  | TypeError string
  | IndexError

type_synonym vec2 = "real \<times> real"
type_synonym vec3 = "real \<times> real \<times> real"
type_synonym mat3 = "vec3 \<times> vec3 \<times> vec3"
type_synonym mat32 = "vec2 \<times> vec2 \<times> vec2"

text \<open>\<open>np.clip(x, lo, hi)\<close> is \<open>minimum(maximum(x, lo), hi)\<close>.\<close>

definition clip :: "real \<Rightarrow> real \<Rightarrow> real \<Rightarrow> real" where
  "clip x lo hi = min (max x lo) hi"

text \<open>\<open>np.arctan2(y, x)\<close>: the angle of the point \<open>(x, y)\<close>, by quadrant.\<close>

definition arctan2 :: "real \<Rightarrow> real \<Rightarrow> real" where
  "arctan2 y x =
     (if 0 < x then arctan (y / x)
      else if x < 0 then (if 0 \<le> y then arctan (y / x) + pi else arctan (y / x) - pi)
      else if 0 < y then pi / 2
      else if y < 0 then - (pi / 2)
      else 0)"

text \<open>\<open>np.linalg.norm\<close> of a vector of two and of three components.\<close>

definition norm2 :: "vec2 \<Rightarrow> real" where
  "norm2 p = sqrt ((fst p)\<^sup>2 + (snd p)\<^sup>2)"

definition norm3 :: "vec3 \<Rightarrow> real" where
  "norm3 p = sqrt ((fst p)\<^sup>2 + (fst (snd p))\<^sup>2 + (snd (snd p))\<^sup>2)"

text \<open>A matrix of three rows applied to a vector: \<open>A.dot(v)\<close>.\<close>

definition dot3 :: "mat3 \<Rightarrow> vec3 \<Rightarrow> vec3" where
  "dot3 A w =
     (case A of ((a11, a12, a13), (a21, a22, a23), (a31, a32, a33)) \<Rightarrow>
      case w of (x, y, z) \<Rightarrow>
        (a11 * x + a12 * y + a13 * z,
         a21 * x + a22 * y + a23 * z,
         a31 * x + a32 * y + a33 * z))"

definition dot32 :: "mat32 \<Rightarrow> vec2 \<Rightarrow> vec3" where
  "dot32 A w =
     (case A of ((a11, a12), (a21, a22), (a31, a32)) \<Rightarrow>
      case w of (x, y) \<Rightarrow>
        (a11 * x + a12 * y, a21 * x + a22 * y, a31 * x + a32 * y))"

section \<open>Geometry utilities (\<open>gym_auv.utils.geomutils\<close>)\<close>

text \<open>
  Modelled from the spec: the module \<open>gym_auv/utils/geomutils.py\<close> is imported by the
  sources but is not among them. \<open>princip\<close> is the spec's \<open>wrapToPrincipal\<close>, which
  "maps any real angle to (-pi, pi]": the angle minus the multiple of \<open>2 pi\<close> that brings it
  into that interval.
\<close>

definition princip :: "real \<Rightarrow> real" where
  "princip a = a - 2 * pi * of_int \<lceil>(a - pi) / (2 * pi)\<rceil>"

text \<open>
  Modelled from the spec: \<open>Rzyx(phi, theta, psi)\<close> of the same missing module. Every call
  in the sources passes 0 for \<open>phi\<close> and \<open>theta\<close>, and for these arguments it is the
  spec's \<open>rotationZ\<close>: the 3x3 matrix of the rotation by \<open>psi\<close> about the vertical axis.
  Only these calls are modelled; the first two arguments are not used.
\<close>

definition Rzyx :: "real \<Rightarrow> real \<Rightarrow> real \<Rightarrow> mat3" where
  "Rzyx phi theta psi =
     ((cos psi, - sin psi, 0),
      (sin psi, cos psi, 0),
      (0, 0, 1))"

section \<open>The vehicle (\<open>gym_auv/objects/auv.py\<close>)\<close>

text \<open>
  The module \<open>gym_auv/utils/constants.py\<close> is not among the sources: the inverse mass
  matrix, the state-dependent matrices \<open>B\<close>, \<open>D\<close>, \<open>C\<close>, \<open>L\<close> and the scalar bounds it
  defines are taken as a parameter.
\<close>

record auv_consts =
  const_M_inv :: mat3
  const_B :: "vec3 \<Rightarrow> mat32"
  const_D :: "vec3 \<Rightarrow> mat3"
  const_C :: "vec3 \<Rightarrow> mat3"
  const_L :: "vec3 \<Rightarrow> mat3"
  const_MAX_SPEED :: real
  const_THRUST_MAX_AUV :: real
  const_THRUST_MIN_AUV :: real
  const_RUDDER_MAX_AUV :: real

definition add3 :: "vec3 \<Rightarrow> vec3 \<Rightarrow> vec3" where
  "add3 a b = (case a of (a1, a2, a3) \<Rightarrow> case b of (b1, b2, b3) \<Rightarrow> (a1 + b1, a2 + b2, a3 + b3))"

definition sub3 :: "vec3 \<Rightarrow> vec3 \<Rightarrow> vec3" where
  "sub3 a b = (case a of (a1, a2, a3) \<Rightarrow> case b of (b1, b2, b3) \<Rightarrow> (a1 - b1, a2 - b2, a3 - b3))"

definition scale3 :: "vec3 \<Rightarrow> real \<Rightarrow> vec3" where
  "scale3 a c = (case a of (a1, a2, a3) \<Rightarrow> (a1 * c, a2 * c, a3 * c))"

text \<open>
  The array \<open>_state\<close> of six numbers is the pair of \<open>eta = [x, y, psi]\<close> (\<open>_state[0:3]\<close>) and
  \<open>nu = [u, v, r]\<close> (\<open>_state[3:]\<close>). The class sets \<open>width\<close>; it has no attribute or
  property named \<open>radius\<close>.
\<close>

record AUV2D =
  vstate :: "vec3 \<times> vec3"
  prev_states :: "(vec3 \<times> vec3) list"
  width :: real
  t_step :: real
  input :: vec2
  prev_inputs :: "vec2 list"

definition AUV2D_init :: "real \<Rightarrow> vec3 \<Rightarrow> real \<Rightarrow> AUV2D" where
  "AUV2D_init ts init_pos w =
     \<lparr>vstate = (init_pos, (0, 0, 0)),
      prev_states = [(init_pos, (0, 0, 0))],
      width = w,
      t_step = ts,
      input = (0, 0),
      prev_inputs = [(0, 0)]\<rparr>"

definition surge :: "auv_consts \<Rightarrow> real \<Rightarrow> real" where
  "surge k s =
     clip s 0 1 * (const_THRUST_MAX_AUV k - const_THRUST_MIN_AUV k) + const_THRUST_MIN_AUV k"

definition steer :: "auv_consts \<Rightarrow> real \<Rightarrow> real" where
  "steer k s = clip s (- 1) 1 * const_RUDDER_MAX_AUV k"

definition sim :: "auv_consts \<Rightarrow> AUV2D \<Rightarrow> AUV2D" where
  "sim k a =
     (case vstate a of (eta, nu) \<Rightarrow>
      let psi = snd (snd eta);
          eta_dot = dot3 (Rzyx 0 0 (princip psi)) nu;
          nu_dot = dot3 (const_M_inv k)
                     (sub3 (sub3 (sub3 (dot32 (const_B k nu) (input a))
                                       (dot3 (const_D k nu) nu))
                                 (dot3 (const_C k nu) nu))
                           (dot3 (const_L k nu) nu));
          eta' = add3 eta (scale3 eta_dot (t_step a));
          nu' = add3 nu (scale3 nu_dot (t_step a))
      in a\<lparr>vstate := ((fst eta', fst (snd eta'), princip (snd (snd eta'))), nu')\<rparr>)"

definition AUV2D_step :: "auv_consts \<Rightarrow> AUV2D \<Rightarrow> vec2 \<Rightarrow> AUV2D" where
  "AUV2D_step k a action =
     (let a1 = a\<lparr>input := (surge k (fst action), steer k (snd action))\<rparr>;
          a2 = sim k a1
      in a2\<lparr>prev_states := prev_states a2 @ [vstate a2],
             prev_inputs := prev_inputs a2 @ [input a2]\<rparr>)"

text \<open>The properties of the class that the environment reads.\<close>

definition position :: "AUV2D \<Rightarrow> vec2" where
  "position a = (fst (fst (vstate a)), fst (snd (fst (vstate a))))"

definition heading :: "AUV2D \<Rightarrow> real" where
  "heading a = snd (snd (fst (vstate a)))"

definition velocity :: "AUV2D \<Rightarrow> vec2" where
  "velocity a = (fst (snd (vstate a)), fst (snd (snd (vstate a))))"

definition max_speed :: "auv_consts \<Rightarrow> AUV2D \<Rightarrow> real" where
  "max_speed k a = const_MAX_SPEED k"

text \<open>
  Reading \<open>vessel.radius\<close>: no such attribute is defined by \<open>AUV2D\<close> (the constructor
  stores its third argument as \<open>width\<close>), so the read raises.
\<close>

definition radius :: "AUV2D \<Rightarrow> error + real" where
  "radius a = Inl (AttributeError ''radius'')"

text \<open>The vehicle after a sequence of actions, applied in order.\<close>

fun AUV2D_steps :: "auv_consts \<Rightarrow> AUV2D \<Rightarrow> vec2 list \<Rightarrow> AUV2D" where
  "AUV2D_steps k a [] = a"
| "AUV2D_steps k a (action # actions) = AUV2D_steps k (AUV2D_step k a action) actions"

section \<open>Library objects\<close>

text \<open>
  A \<open>numpy\<close> random generator: the sequence of numbers in \<open>[0, 1)\<close> that it is going to
  return, and how many of them have been taken. \<open>rng.rand()\<close> takes the next one.
\<close>

record rng =
  draws :: "nat \<Rightarrow> real"
  drawn :: nat

definition rand :: "rng \<Rightarrow> real \<times> rng" where
  "rand g = (draws g (drawn g), g\<lparr>drawn := drawn g + 1\<rparr>)"

text \<open>
  The functions of \<open>scipy\<close> and \<open>gym\<close> that the sources call are parameters:
  \<open>fminbound f x1 x2\<close> (a bounded scalar minimiser; its tolerance and evaluation budget are
  fixed by the caller), \<open>pchip x y\<close> (the interpolant through the points \<open>y\<close> at the
  abscissae \<open>x\<close>, paired with its derivative) and \<open>seeding.np_random seed\<close>.
\<close>

record library =
  fminbound :: "(real \<Rightarrow> real) \<Rightarrow> real \<Rightarrow> real \<Rightarrow> real"
  pchip :: "real list \<Rightarrow> vec2 list \<Rightarrow> (real \<Rightarrow> vec2) \<times> (real \<Rightarrow> vec2)"
  seeding_np_random :: "int \<Rightarrow> rng"

text \<open>
  Indexing a \<open>numpy\<close> array of length \<open>n\<close> with an integer: an index in \<open>[-n, 0)\<close> counts
  from the end, and an index outside \<open>[-n, n)\<close> raises \<open>IndexError\<close>.
\<close>

definition array_index :: "nat \<Rightarrow> int \<Rightarrow> nat option" where
  "array_index n i =
     (if 0 \<le> i \<and> i < int n then Some (nat i)
      else if - int n \<le> i \<and> i < 0 then Some (nat (int n + i))
      else None)"

definition getitem :: "real list \<Rightarrow> int \<Rightarrow> error + real" where
  "getitem xs i =
     (case array_index (length xs) i of
        None \<Rightarrow> Inl IndexError
      | Some j \<Rightarrow> Inr (xs ! j))"

definition setitem :: "real list \<Rightarrow> int \<Rightarrow> real \<Rightarrow> error + real list" where
  "setitem xs i x =
     (case array_index (length xs) i of
        None \<Rightarrow> Inl IndexError
      | Some j \<Rightarrow> Inr (xs[j := x]))"

definition sub2 :: "vec2 \<Rightarrow> vec2 \<Rightarrow> vec2" where
  "sub2 a b = (fst a - fst b, snd a - snd b)"

section \<open>The path (\<open>gym_auv/objects/path.py\<close>)\<close>

fun np_diff :: "vec2 list \<Rightarrow> vec2 list" where
  "np_diff (p # q # ps) = sub2 q p # np_diff (q # ps)"
| "np_diff ps = []"

fun np_cumsum :: "real \<Rightarrow> real list \<Rightarrow> real list" where
  "np_cumsum acc [] = []"
| "np_cumsum acc (x # xs) = (acc + x) # np_cumsum (acc + x) xs"

definition arc_len :: "vec2 list \<Rightarrow> real list" where
  "arc_len coords = 0 # np_cumsum 0 (map norm2 (np_diff coords))"

definition linspace :: "real \<Rightarrow> real \<Rightarrow> nat \<Rightarrow> real list" where
  "linspace a b n = map (\<lambda>i. a + real i * ((b - a) / real (n - 1))) [0..<n]"

text \<open>
  A curve keeps the interpolant, its derivative, its length (twice, as \<open>s_max\<close> and as
  \<open>length\<close>) and 1000 sample points. The \<open>shapely\<close> line built from the sample points is
  not read by any operation modelled here and is left out.
\<close>

record ParamCurve =
  path_coords :: "real \<Rightarrow> vec2"
  path_derivatives :: "real \<Rightarrow> vec2"
  s_max :: real
  length_curve :: real
  path_points :: "vec2 list"

text \<open>One pass of the loop of \<open>ParamCurve.__init__\<close>.\<close>

definition curve_pass ::
  "library \<Rightarrow> vec2 list \<Rightarrow> real list \<times> (real \<Rightarrow> vec2) \<times> (real \<Rightarrow> vec2) \<times> vec2 list" where
  "curve_pass lib waypoints =
     (let arclengths = arc_len waypoints;
          interp = pchip lib arclengths waypoints
      in (arclengths, fst interp, snd interp,
          map (fst interp) (linspace (hd arclengths) (last arclengths) 1000)))"

definition ParamCurve_init :: "library \<Rightarrow> vec2 list \<Rightarrow> ParamCurve" where
  "ParamCurve_init lib waypoints =
     (let pass1 = curve_pass lib waypoints;
          pass2 = curve_pass lib (snd (snd (snd pass1)));
          pass3 = curve_pass lib (snd (snd (snd pass2)));
          arclengths = fst pass3;
          coords = fst (snd pass3)
      in \<lparr>path_coords = coords,
          path_derivatives = fst (snd (snd pass3)),
          s_max = last arclengths,
          length_curve = last arclengths,
          path_points = map coords (linspace 0 (last arclengths) 1000)\<rparr>)"

definition get_direction :: "ParamCurve \<Rightarrow> real \<Rightarrow> real" where
  "get_direction p arclength =
     (let derivative = path_derivatives p arclength
      in arctan2 (snd derivative) (fst derivative))"

definition get_endpoint :: "ParamCurve \<Rightarrow> vec2" where
  "get_endpoint p = path_coords p (s_max p)"

definition get_closest_arclength :: "library \<Rightarrow> ParamCurve \<Rightarrow> vec2 \<Rightarrow> real" where
  "get_closest_arclength lib p pos =
     fminbound lib (\<lambda>s. norm2 (sub2 (path_coords p s) pos)) 0 (length_curve p)"

text \<open>
  The loop of \<open>RandomCurveThroughOrigin.__init__\<close> over \<open>range(nwaypoints // 2)\<close>; \<open>n2\<close> is
  \<open>nwaypoints // 2\<close>. Adding the scalar \<open>length / (n2 + 1) * (rng.rand() - 0.5)\<close> to a point
  adds it to both coordinates.
\<close>

fun waypoint_loop ::
  "real \<Rightarrow> int \<Rightarrow> vec2 \<Rightarrow> vec2 \<Rightarrow> nat list \<Rightarrow> rng \<Rightarrow> vec2 list \<Rightarrow> vec2 list \<times> rng" where
  "waypoint_loop len n2 start endp [] g waypoints = (waypoints, g)"
| "waypoint_loop len n2 start endp (waypoint # rest) g waypoints =
     (let d1 = rand g;
          off1 = len / (of_int n2 + 1) * (fst d1 - 0.5);
          c = of_int n2 - real waypoint;
          newpoint1 = (c * fst start / (of_int n2 + 1) + off1,
                       c * snd start / (of_int n2 + 1) + off1);
          d2 = rand (snd d1);
          off2 = len / (of_int n2 + 1) * (fst d2 - 0.5);
          newpoint2 = (c * fst endp / (of_int n2 + 1) + off2,
                       c * snd endp / (of_int n2 + 1) + off2)
      in waypoint_loop len n2 start endp rest (snd d2)
           (take (waypoint + 1) waypoints @ [newpoint1, (0, 0), newpoint2]
            @ drop (length waypoints - (waypoint + 1)) waypoints))"

definition RandomCurveThroughOrigin_init ::
  "library \<Rightarrow> rng \<Rightarrow> int \<Rightarrow> real \<Rightarrow> ParamCurve \<times> rng" where
  "RandomCurveThroughOrigin_init lib g nwaypoints len =
     (let d = rand g;
          angle_init = 2 * pi * (fst d - 0.5);
          start = (0.5 * len * cos angle_init, 0.5 * len * sin angle_init);
          endp = (- fst start, - snd start);
          r = waypoint_loop len (nwaypoints div 2) start endp
                [0..<nat (nwaypoints div 2)] (snd d) [start, endp]
      in (ParamCurve_init lib (fst r), snd r))"

text \<open>
  A call of the constructor \<open>RandomCurveThroughOrigin(rng, nwaypoints, length=400)\<close>. The
  first argument is the value passed for \<open>rng\<close> (which may be \<open>None\<close>); the second and third
  say whether \<open>nwaypoints\<close> and \<open>length\<close> are passed. \<open>nwaypoints\<close> has no default, so a
  call without it raises \<open>TypeError\<close> before the body runs.
\<close>

definition RandomCurveThroughOrigin ::
  "library \<Rightarrow> rng option \<Rightarrow> int option \<Rightarrow> real option \<Rightarrow> error + ParamCurve \<times> rng" where
  "RandomCurveThroughOrigin lib rng_arg nwaypoints_arg length_arg =
     (case nwaypoints_arg of
        None \<Rightarrow> Inl (TypeError ''__init__() missing 1 required positional argument: nwaypoints'')
      | Some nwaypoints \<Rightarrow>
          (case rng_arg of
             None \<Rightarrow> Inl (AttributeError ''rand'')
           | Some g \<Rightarrow>
               Inr (RandomCurveThroughOrigin_init lib g nwaypoints
                      (case length_arg of None \<Rightarrow> 400 | Some len \<Rightarrow> len))))"

section \<open>Obstacles\<close>

text \<open>
  Modelled from the spec: \<open>gym_auv/objects/obstacles.py\<close> is imported by the environment
  but is not among the sources. An obstacle "exposes position and radius only", and is
  built as \<open>StaticObstacle(position, radius)\<close>.
\<close>

record StaticObstacle =
  obst_position :: vec2
  obst_radius :: real

section \<open>The environment (\<open>gym_auv/envs/auv_env.py\<close>)\<close>

text \<open>
  The attributes of \<open>AUVEnv\<close>. \<open>vessel\<close>, \<open>path\<close>, \<open>np_random\<close> and \<open>last_action\<close> are
  \<open>None\<close> until \<open>reset\<close> and \<open>generate\<close> set them. The constructor also sets \<open>obstacles\<close>
  to \<open>None\<close>, but \<open>reset\<close> replaces it by the empty list before anything reads it, so the
  list is empty from the start here. \<open>nstates\<close> and \<open>nsectors\<close> are set once, to 6 and 8.
  The configuration is a dictionary from option names to numbers.
\<close>

definition nstates :: nat where
  "nstates = 6"

definition nsectors :: nat where
  "nsectors = 8"

record AUVEnv =
  config :: "string \<rightharpoonup> real"
  vessel :: "AUV2D option"
  path :: "ParamCurve option"
  np_random :: "rng option"
  obstacles :: "StaticObstacle list"
  reward :: real
  path_prog :: real
  last_action :: "vec2 option"

subsection \<open>\<open>observe\<close>\<close>

text \<open>
  The obstacle relative to the vessel, in the frame aligned with the vessel's heading, and
  its bearing remapped to the unit interval.
\<close>

definition distance_vec :: "AUV2D \<Rightarrow> StaticObstacle \<Rightarrow> vec3" where
  "distance_vec v obst =
     dot3 (Rzyx 0 0 (- heading v))
       (fst (obst_position obst) - fst (position v),
        snd (obst_position obst) - snd (position v), 0)"

definition remapped_bearing :: "vec3 \<Rightarrow> real" where
  "remapped_bearing dv = (princip (arctan2 (fst (snd dv)) (fst dv)) + pi) / (2 * pi)"

definition sector_index :: "real \<Rightarrow> int" where
  "sector_index ang = int nstates + \<lfloor>ang * real nsectors\<rfloor>"

text \<open>The body of the loop over the obstacles, for one obstacle.\<close>

definition observe_obst ::
  "AUV2D \<Rightarrow> real \<Rightarrow> real list \<Rightarrow> StaticObstacle \<Rightarrow> error + real list" where
  "observe_obst v obst_range obs obst =
     (let dv = distance_vec v obst;
          dist = norm3 dv
      in if dist < obst_range + obst_radius obst then
           (let ang = remapped_bearing dv
            in if 0 \<le> ang \<and> ang < 1 then
                 (case radius v of
                    Inl err \<Rightarrow> Inl err
                  | Inr vessel_radius \<Rightarrow>
                      (let closeness =
                             1 - clip ((dist - vessel_radius - obst_radius obst) / obst_range) 0 1;
                           isector = sector_index ang
                       in case getitem obs isector of
                            Inl err \<Rightarrow> Inl err
                          | Inr current \<Rightarrow>
                              if current < closeness then setitem obs isector closeness
                              else Inr obs))
               else Inr obs)
         else Inr obs)"

fun observe_obstacles ::
  "AUV2D \<Rightarrow> real \<Rightarrow> real list \<Rightarrow> StaticObstacle list \<Rightarrow> error + real list" where
  "observe_obstacles v obst_range obs [] = Inr obs"
| "observe_obstacles v obst_range obs (obst # rest) =
     (case observe_obst v obst_range obs obst of
        Inl err \<Rightarrow> Inl err
      | Inr obs' \<Rightarrow> observe_obstacles v obst_range obs' rest)"

definition observe :: "auv_consts \<Rightarrow> AUVEnv \<Rightarrow> error + real list" where
  "observe k e =
     (case config e ''los_dist'' of
        None \<Rightarrow> Inl (KeyError ''los_dist'')
      | Some los_dist \<Rightarrow>
     (case config e ''obst_range'' of
        None \<Rightarrow> Inl (KeyError ''obst_range'')
      | Some obst_range \<Rightarrow>
     (case path e of
        None \<Rightarrow> Inl (AttributeError ''get_direction'')
      | Some p \<Rightarrow>
     (case vessel e of
        None \<Rightarrow> Inl (AttributeError ''heading'')
      | Some v \<Rightarrow>
     (case last_action e of
        None \<Rightarrow> Inl (TypeError ''NoneType object is not subscriptable'')
      | Some action \<Rightarrow>
         (let path_direction = get_direction p (path_prog e);
              target_heading = get_direction p (path_prog e + los_dist);
              heading_error = princip (target_heading - heading v);
              to_path = sub2 (path_coords p (path_prog e)) (position v);
              cross_track_error =
                fst (snd (dot3 (Rzyx 0 0 (- path_direction)) (fst to_path, snd to_path, 0)));
              obs = (replicate (nstates + nsectors) 0)
                      [0 := clip (fst (velocity v) / max_speed k v) 0 1,
                       1 := clip (snd (velocity v) / 0.2) (- 1) 1,
                       2 := clip (heading_error / pi) (- 1) 1,
                       3 := clip (cross_track_error / los_dist) (- 1) 1,
                       4 := clip (fst action) 0 1,
                       5 := clip (snd action) (- 1) 1]
          in observe_obstacles v obst_range obs (obstacles e)))))))"

subsection \<open>\<open>step_reward\<close>\<close>

text \<open>The loop over the sectors, adding the closeness term of each to the reward.\<close>

fun closeness_rewards ::
  "(string \<rightharpoonup> real) \<Rightarrow> real list \<Rightarrow> nat list \<Rightarrow> real \<Rightarrow> error + real" where
  "closeness_rewards cfg obs [] r = Inr r"
| "closeness_rewards cfg obs (sector # rest) r =
     (case getitem obs (int (nstates + sector)) of
        Inl err \<Rightarrow> Inl err
      | Inr closeness \<Rightarrow>
          (case cfg ''reward_closeness'' of
             None \<Rightarrow> Inl (KeyError ''reward_closeness'')
           | Some w \<Rightarrow> closeness_rewards cfg obs rest (r + w * closeness\<^sup>2)))"

text \<open>
  The three tests that end an episode, in the order of the source. \<open>self.path.length\<close> is
  read only when the first test has not already set \<open>done\<close>.
\<close>

definition step_done :: "AUVEnv \<Rightarrow> error + bool" where
  "step_done e =
     (case (if \<not> reward e < - 300
            then (case path e of
                    None \<Rightarrow> Inl (AttributeError ''length'')
                  | Some p \<Rightarrow> Inr (\<bar>path_prog e - length_curve p\<bar> < 1))
            else Inr True) of
        Inl err \<Rightarrow> Inl err
      | Inr done2 \<Rightarrow>
     (case vessel e of
        None \<Rightarrow> Inl (AttributeError ''position'')
      | Some v \<Rightarrow>
     (case path e of
        None \<Rightarrow> Inl (AttributeError ''get_endpoint'')
      | Some p \<Rightarrow>
         (let dist_to_endpoint = norm2 (sub2 (position v) (get_endpoint p))
          in Inr (done2 \<or> dist_to_endpoint < 10)))))"

definition step_reward :: "auv_consts \<Rightarrow> AUVEnv \<Rightarrow> real list \<Rightarrow> real \<Rightarrow> error + bool \<times> real" where
  "step_reward k e obs delta_path_prog =
     (case step_done e of
        Inl err \<Rightarrow> Inl err
      | Inr done \<Rightarrow>
     (case (if \<not> done
            then (case config e ''reward_ds'' of
                    None \<Rightarrow> Inl (KeyError ''reward_ds'')
                  | Some w \<Rightarrow> Inr (0 + delta_path_prog * w))
            else Inr 0) of
        Inl err \<Rightarrow> Inl err
      | Inr r1 \<Rightarrow>
     (case closeness_rewards (config e) obs [0..<nsectors] r1 of
        Inl err \<Rightarrow> Inl err
      | Inr r2 \<Rightarrow>
         if \<not> done then
           (case getitem obs 0 of
              Inl err \<Rightarrow> Inl err
            | Inr obs0 \<Rightarrow>
           (case config e ''cruise_speed'' of
              None \<Rightarrow> Inl (KeyError ''cruise_speed'')
            | Some cruise_speed \<Rightarrow>
           (case vessel e of
              None \<Rightarrow> Inl (AttributeError ''max_speed'')
            | Some v \<Rightarrow>
           (case getitem obs 3 of
              Inl err \<Rightarrow> Inl err
            | Inr cross_track_error \<Rightarrow>
           (case config e ''reward_cross_track_error'' of
              None \<Rightarrow> Inl (KeyError ''reward_cross_track_error'')
            | Some w_cross \<Rightarrow>
           (case config e ''reward_surge_error'' of
              None \<Rightarrow> Inl (KeyError ''reward_surge_error'')
            | Some w_surge \<Rightarrow>
               (let surge_error = obs0 - cruise_speed / max_speed k v
                in Inr (done,
                        r2 + \<bar>cross_track_error\<bar> * w_cross
                           + max 0 (- surge_error) * w_surge))))))))
         else Inr (done, r2))))"

subsection \<open>\<open>step\<close>\<close>

text \<open>
  \<open>step\<close> returns the environment as it has left it, also when it raises, together with the
  error or the returned tuple \<open>(obs, step_reward, done, info)\<close>; \<open>info\<close> is the empty
  dictionary.
\<close>

definition step ::
  "library \<Rightarrow> auv_consts \<Rightarrow> AUVEnv \<Rightarrow> vec2 \<Rightarrow>
   AUVEnv \<times> (error + real list \<times> real \<times> bool \<times> (string \<times> real) list)" where
  "step lib k e action =
     (let e1 = e\<lparr>last_action := Some action\<rparr>
      in case vessel e1 of
           None \<Rightarrow> (e1, Inl (AttributeError ''step''))
         | Some v \<Rightarrow>
        (let v' = AUV2D_step k v action;
             e2 = e1\<lparr>vessel := Some v'\<rparr>
         in case path e2 of
              None \<Rightarrow> (e2, Inl (AttributeError ''get_closest_arclength''))
            | Some p \<Rightarrow>
           (let prog = get_closest_arclength lib p (position v');
                delta_path_prog = prog - path_prog e2;
                e3 = e2\<lparr>path_prog := prog\<rparr>
            in case observe k e3 of
                 Inl err \<Rightarrow> (e3, Inl err)
               | Inr obs \<Rightarrow>
              (case step_reward k e3 obs delta_path_prog of
                 Inl err \<Rightarrow> (e3, Inl err)
               | Inr (done, r) \<Rightarrow>
                   (e3\<lparr>reward := reward e3 + r\<rparr>, Inr (obs, r, done, []))))))"

subsection \<open>\<open>generate\<close>, \<open>seed\<close>, \<open>reset\<close> and the constructor\<close>

text \<open>
  The loop of \<open>generate\<close> that places the obstacles: each takes one number for the
  arc length, two for the offset and one for the radius.
\<close>

fun place_obstacles ::
  "ParamCurve \<Rightarrow> nat \<Rightarrow> rng \<Rightarrow> StaticObstacle list \<Rightarrow> StaticObstacle list \<times> rng" where
  "place_obstacles p 0 g obsts = (obsts, g)"
| "place_obstacles p (Suc n) g obsts =
     (let d1 = rand g;
          c = path_coords p (0.9 * length_curve p * (fst d1 + 0.1));
          d2 = rand (snd d1);
          d3 = rand (snd d2);
          pos = (fst c + 25 * (fst d2 - 0.5), snd c + 25 * (fst d3 - 0.5));
          d4 = rand (snd d3);
          r = 10 * (fst d4 + 0.5)
      in place_obstacles p n (snd d4) (obsts @ [\<lparr>obst_position = pos, obst_radius = r\<rparr>]))"

text \<open>
  The statements of \<open>generate\<close> that follow its first one: given the path \<open>p\<close> that the
  constructor has returned and the random generator \<open>g0\<close> as the constructor has left it,
  they place the vessel and the obstacles. A value of \<open>nobstacles\<close> that is not a whole
  number is no argument for \<open>range\<close>.
\<close>

definition generate_with_path ::
  "AUVEnv \<Rightarrow> ParamCurve \<Rightarrow> rng \<Rightarrow> AUVEnv \<times> (error + unit)" where
  "generate_with_path e p g0 =
     (let init_pos = path_coords p 0;
          init_angle = get_direction p 0;
          d1 = rand g0;
          d2 = rand (snd d1);
          d3 = rand (snd d2);
          x = fst init_pos + 2 * (fst d1 - 0.5);
          y = snd init_pos + 2 * (fst d2 - 0.5);
          psi = init_angle + 0.1 * (fst d3 - 0.5);
          e1 = e\<lparr>path := Some p, np_random := Some (snd d3)\<rparr>
      in case config e1 ''t_step'' of
           None \<Rightarrow> (e1, Inl (KeyError ''t_step''))
         | Some ts \<Rightarrow>
            (let e2 = e1\<lparr>vessel := Some (AUV2D_init ts (x, y, psi) 4),
                          last_action := Some (0, 0)\<rparr>
             in case config e2 ''nobstacles'' of
                  None \<Rightarrow> (e2, Inl (KeyError ''nobstacles''))
                | Some n \<Rightarrow>
                    if of_int \<lfloor>n\<rfloor> \<noteq> n
                    then (e2, Inl (TypeError ''float object cannot be interpreted as an integer''))
                    else (let r = place_obstacles p (nat \<lfloor>n\<rfloor>) (snd d3) (obstacles e2)
                          in (e2\<lparr>obstacles := fst r, np_random := Some (snd r)\<rparr>, Inr ()))))"

text \<open>
  \<open>generate\<close> calls the constructor of the path with the random generator only:
  \<open>RandomCurveThroughOrigin(rng=self.np_random)\<close>, and goes on with the path it returns.
\<close>

definition generate :: "library \<Rightarrow> AUVEnv \<Rightarrow> AUVEnv \<times> (error + unit)" where
  "generate lib e =
     (case RandomCurveThroughOrigin lib (np_random e) None None of
        Inl err \<Rightarrow> (e, Inl err)
      | Inr (p, g0) \<Rightarrow> generate_with_path e p g0)"

definition seed :: "library \<Rightarrow> AUVEnv \<Rightarrow> int \<Rightarrow> AUVEnv" where
  "seed lib e s = e\<lparr>np_random := Some (seeding_np_random lib s)\<rparr>"

definition reset :: "library \<Rightarrow> auv_consts \<Rightarrow> AUVEnv \<Rightarrow> AUVEnv \<times> (error + real list)" where
  "reset lib k e =
     (let e1 = e\<lparr>vessel := None, path := None, obstacles := [], reward := 0, path_prog := 0\<rparr>;
          e2 = (case np_random e1 of None \<Rightarrow> seed lib e1 5 | Some g \<Rightarrow> e1);
          r = generate lib e2
      in case snd r of
           Inl err \<Rightarrow> (fst r, Inl err)
         | Inr u \<Rightarrow> (fst r, observe k (fst r)))"

text \<open>
  The constructor: the attributes are declared and \<open>reset\<close> is called. The declarations of
  the action and observation spaces that follow belong to the \<open>gym\<close> interface and are
  left out.
\<close>

definition AUVEnv_init :: "library \<Rightarrow> auv_consts \<Rightarrow> (string \<rightharpoonup> real) \<Rightarrow> error + AUVEnv" where
  "AUVEnv_init lib k env_config =
     (let e = \<lparr>config = env_config, vessel = None, path = None, np_random = None,
               obstacles = [], reward = 0, path_prog = 0, last_action = None\<rparr>;
          r = reset lib k e
      in case snd r of
           Inl err \<Rightarrow> Inl err
         | Inr obs \<Rightarrow> Inr (fst r))"

text \<open>
  The options that the docstring of the constructor lists as the members that the
  configuration should contain.
\<close>

definition recognised_options :: "string list" where
  "recognised_options =
     [''reward_ds'', ''reward_closeness'', ''reward_surge_error'',
      ''reward_cross_track_error'', ''reward_collision'', ''nobstacles'', ''los_dist'',
      ''obst_range'', ''t_step'', ''cruise_speed'']"

section \<open>A concrete episode\<close>

text \<open>
  A small world on which the operations are evaluated below: a straight path of length 40
  along the first axis, a vessel at rest at \<open>(0, 30)\<close> heading along the path, constants
  under which a vessel at rest stays at rest, and a configuration with every recognised
  option. On this path the point closest to the vessel is the start of the path, which is
  what the minimiser of this world returns.
\<close>

definition example_consts :: auv_consts where
  "example_consts =
     \<lparr>const_M_inv = ((1, 0, 0), (0, 1, 0), (0, 0, 1)),
      const_B = (\<lambda>nu. ((0, 0), (0, 0), (0, 0))),
      const_D = (\<lambda>nu. ((0, 0, 0), (0, 0, 0), (0, 0, 0))),
      const_C = (\<lambda>nu. ((0, 0, 0), (0, 0, 0), (0, 0, 0))),
      const_L = (\<lambda>nu. ((0, 0, 0), (0, 0, 0), (0, 0, 0))),
      const_MAX_SPEED = 2,
      const_THRUST_MAX_AUV = 2,
      const_THRUST_MIN_AUV = 0,
      const_RUDDER_MAX_AUV = 1\<rparr>"

definition example_library :: library where
  "example_library =
     \<lparr>fminbound = (\<lambda>f x1 x2. x1),
      pchip = (\<lambda>xs ys. ((\<lambda>s. (s, 0)), (\<lambda>s. (1, 0)))),
      seeding_np_random = (\<lambda>s. \<lparr>draws = (\<lambda>n. 1 / 2), drawn = 0\<rparr>)\<rparr>"

definition example_path :: ParamCurve where
  "example_path =
     \<lparr>path_coords = (\<lambda>s. (s, 0)),
      path_derivatives = (\<lambda>s. (1, 0)),
      s_max = 40,
      length_curve = 40,
      path_points = map (\<lambda>s. (s, 0)) (linspace 0 40 1000)\<rparr>"

definition example_config :: "string \<rightharpoonup> real" where
  "example_config =
     [''reward_ds'' \<mapsto> 1,
      ''reward_closeness'' \<mapsto> - 1,
      ''reward_surge_error'' \<mapsto> - 2,
      ''reward_cross_track_error'' \<mapsto> - 5,
      ''reward_collision'' \<mapsto> - 10,
      ''nobstacles'' \<mapsto> 0,
      ''los_dist'' \<mapsto> 10,
      ''obst_range'' \<mapsto> 20,
      ''t_step'' \<mapsto> 1 / 10,
      ''cruise_speed'' \<mapsto> 1]"

definition example_vessel :: AUV2D where
  "example_vessel = AUV2D_init (1 / 10) (0, 30, 0) 4"

definition example_env :: AUVEnv where
  "example_env =
     \<lparr>config = example_config,
      vessel = Some example_vessel,
      path = Some example_path,
      np_random = Some \<lparr>draws = (\<lambda>n. 1 / 2), drawn = 0\<rparr>,
      obstacles = [],
      reward = 0,
      path_prog = 0,
      last_action = Some (0, 0)\<rparr>"

text \<open>The observation of the example episode: only the cross-track channel is not zero.\<close>

definition example_obs :: "real list" where
  "example_obs = [0, 0, 0, - 1, 0, 0, 0, 0, 0, 0, 0, 0, 0, 0]"

text \<open>
  Three obstacles of radius 5 around the vessel of the example: one 10 ahead of it, one 10
  behind it, and one 100 ahead, beyond the detection range of 20.
\<close>

definition obstacle_ahead :: StaticObstacle where
  "obstacle_ahead = \<lparr>obst_position = (10, 30), obst_radius = 5\<rparr>"

definition obstacle_behind :: StaticObstacle where
  "obstacle_behind = \<lparr>obst_position = (- 10, 30), obst_radius = 5\<rparr>"

definition obstacle_far :: StaticObstacle where
  "obstacle_far = \<lparr>obst_position = (100, 30), obst_radius = 5\<rparr>"

section \<open>The bounds of the observation\<close>

text \<open>
  The bounds of the channels of an observation: the first and the fifth channel and the
  sector channels lie in \<open>[0, 1]\<close>, the others in \<open>[-1, 1]\<close>.
\<close>

definition within_bounds :: "real list \<Rightarrow> bool" where
  "within_bounds obs \<longleftrightarrow>
     length obs = nstates + nsectors \<and>
     0 \<le> obs ! 0 \<and> obs ! 0 \<le> 1 \<and>
     - 1 \<le> obs ! 1 \<and> obs ! 1 \<le> 1 \<and>
     - 1 \<le> obs ! 2 \<and> obs ! 2 \<le> 1 \<and>
     - 1 \<le> obs ! 3 \<and> obs ! 3 \<le> 1 \<and>
     0 \<le> obs ! 4 \<and> obs ! 4 \<le> 1 \<and>
     - 1 \<le> obs ! 5 \<and> obs ! 5 \<le> 1 \<and>
     (\<forall>sector<nsectors. 0 \<le> obs ! (nstates + sector) \<and> obs ! (nstates + sector) \<le> 1)"

section \<open>Principal-angle wrapping\<close>

lemma princip_gt: "- pi < princip a"
proof -
  have "of_int \<lceil>(a - pi) / (2 * pi)\<rceil> < (a - pi) / (2 * pi) + 1"
    by linarith
  then have "2 * pi * of_int \<lceil>(a - pi) / (2 * pi)\<rceil> < 2 * pi * ((a - pi) / (2 * pi) + 1)"
    using pi_gt_zero by (intro mult_strict_left_mono) simp_all
  also have "\<dots> = a - pi + 2 * pi"
    using pi_gt_zero by (simp add: field_simps)
  finally show ?thesis by (simp add: princip_def)
qed

lemma princip_le: "princip a \<le> pi"
proof -
  have "(a - pi) / (2 * pi) \<le> of_int \<lceil>(a - pi) / (2 * pi)\<rceil>"
    by (rule le_of_int_ceiling)
  then have "2 * pi * ((a - pi) / (2 * pi)) \<le> 2 * pi * of_int \<lceil>(a - pi) / (2 * pi)\<rceil>"
    using pi_gt_zero by (intro mult_left_mono) simp_all
  moreover have "2 * pi * ((a - pi) / (2 * pi)) = a - pi"
    using pi_gt_zero by simp
  ultimately show ?thesis by (simp add: princip_def)
qed

lemma princip_periodic: "princip (a + 2 * pi) = princip a"
proof -
  have "(a + 2 * pi - pi) / (2 * pi) = (a - pi) / (2 * pi) + 1"
    using pi_gt_zero by (simp add: field_simps)
  then have "\<lceil>(a + 2 * pi - pi) / (2 * pi)\<rceil> = \<lceil>(a - pi) / (2 * pi)\<rceil> + 1"
    by (simp only: ceiling_add_one)
  then show ?thesis
    by (simp only: princip_def of_int_add of_int_1) (simp add: algebra_simps)
qed

text \<open>
  C6. For every real angle, the principal-angle wrapping function returns a value in the
  half-open interval \<open>(-pi, pi]\<close>, and wrapping is periodic with period \<open>2 pi\<close>.
\<close>

theorem princip_range_and_period:
  "- pi < princip a \<and> princip a \<le> pi \<and> princip (a + 2 * pi) = princip a"
  by (simp only: princip_gt princip_le princip_periodic simp_thms)

section \<open>Determinism of the dynamics\<close>

lemma t_step_sim: "t_step (sim k a) = t_step a"
  by (cases "vstate a") (simp add: sim_def Let_def)

lemma input_sim: "input (sim k a) = input a"
  by (cases "vstate a") (simp add: sim_def Let_def)

lemma vstate_sim_eq:
  assumes "vstate a = vstate b" and "t_step a = t_step b" and "input a = input b"
  shows "vstate (sim k a) = vstate (sim k b)"
proof -
  obtain eta nu where en: "vstate b = (eta, nu)"
    by (cases "vstate b")
  show ?thesis
    unfolding sim_def using assms en by (simp add: Let_def)
qed

lemma vstate_AUV2D_step:
  assumes "vstate a = vstate b" and "t_step a = t_step b"
  shows "vstate (AUV2D_step k a action) = vstate (AUV2D_step k b action)"
proof -
  let ?i = "(surge k (fst action), steer k (snd action))"
  have "vstate (sim k (a\<lparr>input := ?i\<rparr>)) = vstate (sim k (b\<lparr>input := ?i\<rparr>))"
    by (rule vstate_sim_eq) (simp_all add: assms)
  then show ?thesis
    by (simp add: AUV2D_step_def Let_def)
qed

lemma t_step_AUV2D_step: "t_step (AUV2D_step k a action) = t_step a"
  by (simp add: AUV2D_step_def Let_def t_step_sim)

lemma vstate_AUV2D_steps:
  "vstate a = vstate b \<Longrightarrow> t_step a = t_step b \<Longrightarrow>
   vstate (AUV2D_steps k a actions) = vstate (AUV2D_steps k b actions)"
proof (induction actions arbitrary: a b)
  case Nil
  then show ?case by simp
next
  case (Cons action actions)
  have v: "vstate (AUV2D_step k a action) = vstate (AUV2D_step k b action)"
    using Cons.prems by (rule vstate_AUV2D_step)
  have t: "t_step (AUV2D_step k a action) = t_step (AUV2D_step k b action)"
    using Cons.prems by (simp add: t_step_AUV2D_step)
  show ?case
    using Cons.IH [OF v t] by simp
qed

text \<open>
  C7. The dynamics are deterministic: two runs that start from the same vehicle state, with
  the same timestep, and apply the same sequence of actions end in the same vehicle state.
  The two vehicles may differ in everything else they store (the histories, the width, the
  previous input): none of it, and no random source, enters the dynamics.
\<close>

theorem AUV2D_steps_deterministic:
  assumes "vstate a = vstate b" and "t_step a = t_step b"
  shows "vstate (AUV2D_steps k a actions) = vstate (AUV2D_steps k b actions)"
  using assms by (rule vstate_AUV2D_steps)

theorem AUV2D_steps_deterministic_witness:
  "vstate example_vessel = vstate (example_vessel\<lparr>width := 2, prev_inputs := []\<rparr>) \<and>
   t_step example_vessel = t_step (example_vessel\<lparr>width := 2, prev_inputs := []\<rparr>) \<and>
   vstate (AUV2D_steps example_consts example_vessel [(1, 0), (0, 1)]) =
   vstate (AUV2D_steps example_consts (example_vessel\<lparr>width := 2, prev_inputs := []\<rparr>)
             [(1, 0), (0, 1)])"
proof -
  have v: "vstate example_vessel = vstate (example_vessel\<lparr>width := 2, prev_inputs := []\<rparr>)"
    by simp
  have t: "t_step example_vessel = t_step (example_vessel\<lparr>width := 2, prev_inputs := []\<rparr>)"
    by simp
  show ?thesis
    using v t AUV2D_steps_deterministic [OF v t, of example_consts "[(1, 0), (0, 1)]"]
    by (simp only: simp_thms)
qed


section \<open>Evaluating the concrete episode\<close>

lemma princip_0: "princip 0 = 0"
proof -
  have "(0 - pi) / (2 * pi) = - (1 / 2)"
    using pi_gt_zero by (simp add: field_simps)
  moreover have "\<lceil>- (1 / 2) :: real\<rceil> = 0"
    by (rule ceiling_unique) simp_all
  ultimately show ?thesis by (simp add: princip_def)
qed

lemma princip_pi: "princip pi = pi"
  by (simp add: princip_def)

lemma norm3_axis: "norm3 (x, 0, 0) = \<bar>x\<bar>"
  by (simp add: norm3_def)

lemma norm2_example: "norm2 (- 40, 30) = 50"
proof -
  have "sqrt ((50::real)\<^sup>2) = 50" by simp
  then show ?thesis by (simp add: norm2_def)
qed

lemma vessel_facts:
  "position example_vessel = (0, 30)" "heading example_vessel = 0" "velocity example_vessel = (0, 0)"
  by (simp_all add: example_vessel_def AUV2D_init_def position_def heading_def velocity_def)

lemma step_example_vessel: "AUV2D_step example_consts example_vessel (0, 0) =
   example_vessel\<lparr>prev_states := [((0, 30, 0), (0, 0, 0)), ((0, 30, 0), (0, 0, 0))],
                   prev_inputs := [(0, 0), (0, 0)]\<rparr>"
  by (simp add: AUV2D_step_def sim_def example_vessel_def AUV2D_init_def example_consts_def
      Let_def surge_def steer_def clip_def dot3_def dot32_def add3_def sub3_def scale3_def Rzyx_def princip_0)

lemma sectors_upt: "[0..<nsectors] = [0, 1, 2, 3, 4, 5, 6, 7]"
  by (simp add: nsectors_def upt_rec)

lemma get_direction_example: "get_direction example_path s = 0"
  by (simp add: get_direction_def example_path_def arctan2_def)

lemma config_example:
  "example_config ''reward_ds'' = Some 1"
  "example_config ''reward_closeness'' = Some (- 1)"
  "example_config ''reward_surge_error'' = Some (- 2)"
  "example_config ''reward_cross_track_error'' = Some (- 5)"
  "example_config ''los_dist'' = Some 10"
  "example_config ''obst_range'' = Some 20"
  "example_config ''t_step'' = Some (1 / 10)"
  "example_config ''cruise_speed'' = Some 1"
  "example_config ''nobstacles'' = Some 0"
  "example_config ''reward_collision'' = Some (- 10)"
  by (simp_all add: example_config_def)

lemma observe_example:
  assumes "config e ''los_dist'' = Some 10" and "config e ''obst_range'' = Some 20"
    and "path e = Some example_path"
    and "vessel e = Some v" and "position v = (0, 30)" and "heading v = 0"
    and "velocity v = (0, 0)" and "last_action e = Some (0, 0)" and "path_prog e = 0"
  shows "observe example_consts e = observe_obstacles v 20 example_obs (obstacles e)"
proof -
  have obs: "(replicate (nstates + nsectors) (0::real))
               [0 := 0, Suc 0 := 0, 2 := 0, 3 := - 1, 4 := 0, 5 := 0] = example_obs"
    by (simp add: nstates_def nsectors_def example_obs_def eval_nat_numeral)
  have path0: "path_coords example_path 0 = (0, 0)"
    by (simp add: example_path_def)
  show ?thesis
    unfolding observe_def
    by (simp add: assms get_direction_example princip_0 path0 sub2_def
        Rzyx_def dot3_def clip_def max_speed_def obs)
qed

lemma step_done_example:
  assumes "path e = Some example_path" and "vessel e = Some v" and "position v = (0, 30)"
    and "path_prog e = 0"
  shows "step_done e = Inr (reward e < - 300)"
proof -
  have "get_endpoint example_path = (40, 0)"
    by (simp add: get_endpoint_def example_path_def)
  then show ?thesis
    unfolding step_done_def
    by (simp add: assms sub2_def norm2_example example_path_def)
qed

lemma closeness_rewards_example:
  "closeness_rewards example_config example_obs [0..<nsectors] r = Inr r"
  by (simp add: sectors_upt getitem_def array_index_def nstates_def example_obs_def
      config_example)

lemma step_reward_example:
  assumes "config e = example_config" and "path e = Some example_path"
    and "vessel e = Some v" and "position v = (0, 30)" and "path_prog e = 0"
  shows "step_reward example_consts e example_obs 0 =
           Inr (reward e < - 300, if reward e < - 300 then 0 else - 6)"
proof -
  have d: "step_done e = Inr (reward e < - 300)"
    using assms by (simp add: step_done_example)
  have g: "getitem example_obs 0 = Inr 0" "getitem example_obs 3 = Inr (- 1)"
    by (simp_all add: getitem_def array_index_def example_obs_def)
  show ?thesis
    unfolding step_reward_def
    by (simp add: d assms(1,3) config_example closeness_rewards_example g max_speed_def
        example_consts_def)
qed

section \<open>Termination on the accumulated reward\<close>

lemma stepped_vessel_facts:
  "position (AUV2D_step example_consts example_vessel (0, 0)) = (0, 30)"
  "heading (AUV2D_step example_consts example_vessel (0, 0)) = 0"
  "velocity (AUV2D_step example_consts example_vessel (0, 0)) = (0, 0)"
  unfolding step_example_vessel
  by (simp_all add: position_def heading_def velocity_def example_vessel_def AUV2D_init_def)

lemma step_example:
  "step example_library example_consts (example_env\<lparr>reward := r0\<rparr>) (0, 0) =
     (example_env\<lparr>vessel := Some (AUV2D_step example_consts example_vessel (0, 0)),
                  reward := r0 + (if r0 < - 300 then 0 else - 6)\<rparr>,
      Inr (example_obs, if r0 < - 300 then 0 else - 6, r0 < - 300, []))"
proof -
  let ?v = "AUV2D_step example_consts example_vessel (0, 0)"
  let ?e3 = "\<lparr>config = example_config, vessel = Some ?v, path = Some example_path,
              np_random = Some \<lparr>draws = (\<lambda>n. 1 / 2), drawn = 0\<rparr>, obstacles = [],
              reward = r0, path_prog = 0, last_action = Some (0, 0)\<rparr>"
  have prog: "get_closest_arclength example_library example_path (position ?v) = 0"
    by (simp add: get_closest_arclength_def example_library_def)
  have o: "observe example_consts ?e3 = Inr example_obs"
    by (simp add: observe_example [where v = ?v] stepped_vessel_facts config_example)
  have r: "step_reward example_consts ?e3 example_obs 0 =
             Inr (r0 < - 300, if r0 < - 300 then 0 else - 6)"
    by (simp add: step_reward_example [where v = ?v] stepped_vessel_facts)
  show ?thesis
    unfolding step_def
    by (simp add: Let_def example_env_def prog o r)
qed

lemma step_done_iff:
  assumes "step_done e = Inr done"
  shows "\<exists>p v. path e = Some p \<and> vessel e = Some v \<and>
           (done \<longleftrightarrow> reward e < - 300 \<or> \<bar>path_prog e - length_curve p\<bar> < 1
                    \<or> norm2 (sub2 (position v) (get_endpoint p)) < 10)"
  using assms unfolding step_done_def
  by (auto simp add: Let_def split: option.splits sum.splits if_splits)

lemma step_reward_done:
  assumes "step_reward k e obs d = Inr (done, r)"
  shows "step_done e = Inr done"
  using assms unfolding step_reward_def
  by (simp split: sum.splits option.splits if_splits)

text \<open>
  C2 (as amended). The test of the accumulated reward against \<open>-300\<close> is made on the
  reward accumulated before the step: the reward of the step is added only after
  \<open>step_reward\<close> has decided \<open>done\<close>. A step that returns reports \<open>done\<close> exactly when
  the reward accumulated before it is below \<open>-300\<close> or the goal region is reached, so an
  episode whose accumulated reward drops below \<open>-300\<close> on one step is ended by the next.
\<close>

theorem step_done_from_reward_before_step:
  assumes "step lib k e action = (e', Inr (obs, r, done, info))"
  shows "reward e' = reward e + r \<and>
         (done \<longleftrightarrow>
            reward e < - 300 \<or>
            (\<exists>p v. path e' = Some p \<and> vessel e' = Some v \<and>
               (\<bar>path_prog e' - length_curve p\<bar> < 1
                \<or> norm2 (sub2 (position v) (get_endpoint p)) < 10)))"
proof -
  from assms obtain v p where v: "vessel e = Some v" and p: "path e = Some p"
    unfolding step_def by (auto simp add: Let_def split: option.splits)
  let ?v = "AUV2D_step k v action"
  let ?prog = "get_closest_arclength lib p (position ?v)"
  let ?e3 = "e\<lparr>last_action := Some action, vessel := Some ?v, path_prog := ?prog\<rparr>"
  from assms v p have sr: "step_reward k ?e3 obs (?prog - path_prog e) = Inr (done, r)"
    and e': "e' = ?e3\<lparr>reward := reward e + r\<rparr>"
    unfolding step_def by (auto simp add: Let_def split: sum.splits)
  from step_done_iff [OF step_reward_done [OF sr]]
  have "done \<longleftrightarrow> reward e < - 300 \<or> \<bar>?prog - length_curve p\<bar> < 1
          \<or> norm2 (sub2 (position ?v) (get_endpoint p)) < 10"
    using p by simp
  then show ?thesis
    by (simp add: e' p)
qed

theorem step_done_from_reward_before_step_witness:
  "snd (step example_library example_consts (example_env\<lparr>reward := - 305\<rparr>) (0, 0)) =
     Inr (example_obs, 0, True, []) \<and>
   reward (fst (step example_library example_consts (example_env\<lparr>reward := - 305\<rparr>) (0, 0))) =
     - 305"
proof -
  let ?e' = "example_env\<lparr>vessel := Some (AUV2D_step example_consts example_vessel (0, 0)),
                          reward := - 305\<rparr>"
  have s: "step example_library example_consts (example_env\<lparr>reward := - 305\<rparr>) (0, 0) =
             (?e', Inr (example_obs, 0, True, []))"
    using step_example [of "- 305"] by simp
  from step_done_from_reward_before_step [OF s]
  have "reward ?e' = reward (example_env\<lparr>reward := - 305\<rparr>) + 0"
    by (rule conjunct1)
  then show ?thesis
    using s by simp
qed

text \<open>
  C2 (as stated) fails: from an accumulated reward of \<open>-299\<close>, a step with reward \<open>-6\<close>
  leaves the accumulated reward at \<open>-305\<close> and returns \<open>done = False\<close>.
\<close>

theorem step_threshold_counterexample:
  "reward (example_env\<lparr>reward := - 299\<rparr>) = - 299 \<and>
   snd (step example_library example_consts (example_env\<lparr>reward := - 299\<rparr>) (0, 0)) =
     Inr (example_obs, - 6, False, []) \<and>
   reward (fst (step example_library example_consts (example_env\<lparr>reward := - 299\<rparr>) (0, 0))) =
     - 305"
  by (simp add: step_example)

section \<open>What a step leaves unchanged\<close>

text \<open>
  C9. A step, whether it returns or raises, leaves the path and the obstacles (their
  number, positions and radii) as they were, together with the configuration and the random
  generator: only the vessel, the progress, the accumulated reward and the last action can
  change.
\<close>

theorem step_frame:
  "path (fst (step lib k e action)) = path e \<and>
   obstacles (fst (step lib k e action)) = obstacles e \<and>
   config (fst (step lib k e action)) = config e \<and>
   np_random (fst (step lib k e action)) = np_random e"
  by (simp add: step_def Let_def split: option.splits sum.splits prod.splits)

section \<open>The terms of the step reward\<close>

lemma getitem_nat:
  "n < length xs \<Longrightarrow> getitem xs (int n) = Inr (xs ! n)"
  by (simp add: getitem_def array_index_def)

lemma closeness_rewards_sum:
  assumes "cfg ''reward_closeness'' = Some w" and "\<forall>s \<in> set secs. nstates + s < length obs"
  shows "closeness_rewards cfg obs secs r =
           Inr (r + sum_list (map (\<lambda>s. w * (obs ! (nstates + s))\<^sup>2) secs))"
  using assms(2)
proof (induction secs arbitrary: r)
  case Nil
  then show ?case by simp
next
  case (Cons s secs)
  from Cons.prems have "nstates + s < length obs"
    by simp
  then have "getitem obs (int (nstates + s)) = Inr (obs ! (nstates + s))"
    by (rule getitem_nat)
  moreover have "\<forall>s \<in> set secs. nstates + s < length obs"
    using Cons.prems by simp
  ultimately show ?case
    using Cons.IH assms(1) by (simp add: algebra_simps)
qed

lemma closeness_rewards_sectors:
  assumes "cfg ''reward_closeness'' = Some w" and "length obs = nstates + nsectors"
  shows "closeness_rewards cfg obs [0..<nsectors] r =
           Inr (r + (\<Sum>s<nsectors. w * (obs ! (nstates + s))\<^sup>2))"
proof -
  have "closeness_rewards cfg obs [0..<nsectors] r =
          Inr (r + sum_list (map (\<lambda>s. w * (obs ! (nstates + s))\<^sup>2) [0..<nsectors]))"
    using assms by (intro closeness_rewards_sum) simp_all
  then show ?thesis
    by (simp add: interv_sum_list_conv_sum_set_nat atLeast0LessThan)
qed

text \<open>
  C3. The closeness term \<open>reward_closeness * closeness\<^sup>2\<close> of each of the \<open>nsectors\<close>
  sectors is added to the step reward whether or not the step ends the episode; the progress
  term, the cross-track term and the surge term are added only when it does not.
\<close>

theorem step_reward_terms:
  assumes "length obs = nstates + nsectors"
    and "step_done e = Inr done"
    and "vessel e = Some v"
    and "config e ''reward_ds'' = Some w_ds"
    and "config e ''reward_closeness'' = Some w_closeness"
    and "config e ''cruise_speed'' = Some cruise_speed"
    and "config e ''reward_cross_track_error'' = Some w_cross"
    and "config e ''reward_surge_error'' = Some w_surge"
  shows "step_reward k e obs delta_path_prog =
           Inr (done,
                (if done then 0 else delta_path_prog * w_ds)
                + (\<Sum>sector<nsectors. w_closeness * (obs ! (nstates + sector))\<^sup>2)
                + (if done then 0
                   else \<bar>obs ! 3\<bar> * w_cross
                        + max 0 (- (obs ! 0 - cruise_speed / max_speed k v)) * w_surge))"
proof -
  have g: "getitem obs 0 = Inr (obs ! 0)" "getitem obs 3 = Inr (obs ! 3)"
    using assms(1) getitem_nat [of 0 obs] getitem_nat [of 3 obs]
    by (simp_all add: nstates_def)
  show ?thesis
    unfolding step_reward_def
    by (simp add: assms closeness_rewards_sectors g)
qed

theorem step_reward_terms_witness:
  "length example_obs = nstates + nsectors \<and>
   step_done example_env = Inr False \<and>
   step_reward example_consts example_env example_obs 0 = Inr (False, - 6)"
proof -
  have l: "length example_obs = nstates + nsectors"
    by (simp add: example_obs_def nstates_def nsectors_def)
  have d: "step_done example_env = Inr False"
    using step_done_example [of example_env example_vessel]
    by (simp add: example_env_def vessel_facts)
  have v: "vessel example_env = Some example_vessel"
    by (simp add: example_env_def)
  have c: "config example_env ''reward_ds'' = Some 1"
    "config example_env ''reward_closeness'' = Some (- 1)"
    "config example_env ''cruise_speed'' = Some 1"
    "config example_env ''reward_cross_track_error'' = Some (- 5)"
    "config example_env ''reward_surge_error'' = Some (- 2)"
    by (simp_all add: example_env_def config_example)
  have s: "(\<Sum>sector<nsectors. - (example_obs ! (nstates + sector))\<^sup>2) = 0"
    by (simp add: nsectors_def nstates_def example_obs_def eval_nat_numeral lessThan_Suc)
  have m: "max_speed example_consts example_vessel = 2"
    by (simp add: max_speed_def example_consts_def)
  have o: "example_obs ! 3 = - 1" "example_obs ! 0 = 0"
    by (simp_all add: example_obs_def)
  have "step_reward example_consts example_env example_obs 0 = Inr (False, - 6)"
    using step_reward_terms [OF l d v c, of example_consts 0]
    by (simp add: s o m)
  then show ?thesis
    using l d by simp
qed

section \<open>Resetting the environment\<close>

lemma generate_raises:
  "generate lib e =
     (e, Inl (TypeError ''__init__() missing 1 required positional argument: nwaypoints''))"
  by (simp add: generate_def RandomCurveThroughOrigin_def)

text \<open>
  C1. \<open>reset\<close> is to build a fresh path, obstacles and vessel and return the first
  observation. On every environment it raises instead: \<open>generate\<close> calls the constructor of
  the path without its required argument \<open>nwaypoints\<close>. The constructor of the
  environment, which calls \<open>reset\<close>, raises with it.
\<close>

theorem reset_raises_TypeError:
  "snd (reset lib k e) =
     Inl (TypeError ''__init__() missing 1 required positional argument: nwaypoints'') \<and>
   AUVEnv_init lib k env_config =
     Inl (TypeError ''__init__() missing 1 required positional argument: nwaypoints'')"
  by (simp add: AUVEnv_init_def reset_def generate_raises Let_def)

section \<open>The sector channels\<close>

lemma sector_index_bounds:
  assumes "0 \<le> ang" and "ang < 1"
  shows "int nstates \<le> sector_index ang" and "sector_index ang < int (nstates + nsectors)"
proof -
  have "0 \<le> ang * real nsectors"
    using assms(1) by simp
  then have "0 \<le> \<lfloor>ang * real nsectors\<rfloor>"
    by simp
  then show "int nstates \<le> sector_index ang"
    by (simp add: sector_index_def)
  have "ang * real nsectors < real nsectors"
    using assms(2) by (simp add: nsectors_def)
  then have "\<lfloor>ang * real nsectors\<rfloor> < int nsectors"
    by (simp add: floor_less_iff)
  then show "sector_index ang < int (nstates + nsectors)"
    by (simp add: sector_index_def)
qed

lemma array_index_in_range:
  assumes "0 \<le> i" and "i < int n"
  shows "array_index n i = Some (nat i)"
  using assms by (simp add: array_index_def)

lemma clip_bounds: "lo \<le> hi \<Longrightarrow> lo \<le> clip x lo hi \<and> clip x lo hi \<le> hi"
  by (simp add: clip_def)

lemma within_bounds_update:
  assumes "within_bounds obs" and "nstates \<le> i" and "i < nstates + nsectors"
    and "0 \<le> c" and "c \<le> 1"
  shows "within_bounds (obs[i := c])"
  using assms
  by (simp add: within_bounds_def nth_list_update nstates_def nsectors_def)

lemma observe_obst_Inr:
  assumes "observe_obst v obst_range obs obst = Inr obs'"
    and "length obs = nstates + nsectors"
  shows "obs' = obs \<or>
         (\<exists>i c. nstates \<le> i \<and> i < nstates + nsectors \<and> 0 \<le> c \<and> c \<le> 1 \<and> obs' = obs[i := c])"
proof (cases "norm3 (distance_vec v obst) < obst_range + obst_radius obst
              \<and> 0 \<le> remapped_bearing (distance_vec v obst)
              \<and> remapped_bearing (distance_vec v obst) < 1")
  case False
  then have "observe_obst v obst_range obs obst = Inr obs"
    by (auto simp add: observe_obst_def Let_def)
  then show ?thesis
    using assms(1) by simp
next
  case True
  let ?ang = "remapped_bearing (distance_vec v obst)"
  let ?i = "sector_index ?ang"
  have lo: "int nstates \<le> ?i" and hi: "?i < int (nstates + nsectors)"
    using True sector_index_bounds [of ?ang] by simp_all
  then have idx: "array_index (length obs) ?i = Some (nat ?i)"
    using assms(2) by (intro array_index_in_range) simp_all
  show ?thesis
  proof (cases "radius v")
    case (Inl err)
    then have "observe_obst v obst_range obs obst = Inl err"
      using True by (simp add: observe_obst_def Let_def)
    then show ?thesis
      using assms(1) by simp
  next
    case (Inr vr)
    let ?c = "1 - clip ((norm3 (distance_vec v obst) - vr - obst_radius obst) / obst_range) 0 1"
    have c: "0 \<le> ?c" "?c \<le> 1"
      using clip_bounds [of 0 1] by simp_all
    have "observe_obst v obst_range obs obst =
            (if obs ! nat ?i < ?c then Inr (obs[nat ?i := ?c]) else Inr obs)"
      using True Inr idx by (simp add: observe_obst_def Let_def getitem_def setitem_def)
    then have "obs' = obs \<or> obs' = obs[nat ?i := ?c]"
      using assms(1) by (simp split: if_splits)
    moreover have "nstates \<le> nat ?i" "nat ?i < nstates + nsectors"
      using lo hi by simp_all
    ultimately show ?thesis
      using c by blast
  qed
qed

lemma observe_obst_no_IndexError:
  assumes "length obs = nstates + nsectors"
  shows "observe_obst v obst_range obs obst \<noteq> Inl IndexError"
proof (cases "norm3 (distance_vec v obst) < obst_range + obst_radius obst
              \<and> 0 \<le> remapped_bearing (distance_vec v obst)
              \<and> remapped_bearing (distance_vec v obst) < 1")
  case False
  then have "observe_obst v obst_range obs obst = Inr obs"
    by (auto simp add: observe_obst_def Let_def)
  then show ?thesis by simp
next
  case True
  let ?ang = "remapped_bearing (distance_vec v obst)"
  let ?i = "sector_index ?ang"
  have "int nstates \<le> ?i" and "?i < int (nstates + nsectors)"
    using True sector_index_bounds [of ?ang] by simp_all
  then have idx: "array_index (length obs) ?i = Some (nat ?i)"
    using assms by (intro array_index_in_range) simp_all
  show ?thesis
  proof (cases "radius v")
    case (Inl err)
    then have "err \<noteq> IndexError"
      by (auto simp add: radius_def)
    moreover have "observe_obst v obst_range obs obst = Inl err"
      using True Inl by (simp add: observe_obst_def Let_def)
    ultimately show ?thesis by simp
  next
    case (Inr vr)
    then show ?thesis
      using True idx by (simp add: observe_obst_def Let_def getitem_def setitem_def)
  qed
qed

lemma observe_obst_within_bounds:
  assumes "observe_obst v obst_range obs obst = Inr obs'" and "within_bounds obs"
  shows "within_bounds obs'"
proof -
  have "length obs = nstates + nsectors"
    using assms(2) by (simp add: within_bounds_def)
  from observe_obst_Inr [OF assms(1) this] show ?thesis
    using assms(2) within_bounds_update by auto
qed

lemma observe_obstacles_within_bounds:
  "observe_obstacles v obst_range obs obsts = Inr obs' \<Longrightarrow> within_bounds obs \<Longrightarrow>
   within_bounds obs'"
proof (induction obsts arbitrary: obs)
  case Nil
  then show ?case by simp
next
  case (Cons obst obsts)
  from Cons.prems(1) obtain obs1 where 1: "observe_obst v obst_range obs obst = Inr obs1"
    and 2: "observe_obstacles v obst_range obs1 obsts = Inr obs'"
    by (auto split: sum.splits)
  have "within_bounds obs1"
    using 1 Cons.prems(2) by (rule observe_obst_within_bounds)
  with 2 show ?case
    by (rule Cons.IH)
qed

lemma observe_obstacles_no_IndexError:
  "within_bounds obs \<Longrightarrow> observe_obstacles v obst_range obs obsts \<noteq> Inl IndexError"
proof (induction obsts arbitrary: obs)
  case Nil
  then show ?case by simp
next
  case (Cons obst obsts)
  have len: "length obs = nstates + nsectors"
    using Cons.prems by (simp add: within_bounds_def)
  show ?case
  proof (cases "observe_obst v obst_range obs obst")
    case (Inl err)
    then have "err \<noteq> IndexError"
      using observe_obst_no_IndexError [OF len, of v obst_range obst] by auto
    then show ?thesis
      using Inl by simp
  next
    case (Inr obs1)
    then have "within_bounds obs1"
      using Cons.prems by (rule observe_obst_within_bounds)
    then show ?thesis
      using Inr Cons.IH by simp
  qed
qed

lemma initial_obs_within_bounds:
  "within_bounds ((replicate (nstates + nsectors) 0)
     [0 := clip a 0 1, 1 := clip b (- 1) 1, 2 := clip c (- 1) 1, 3 := clip d (- 1) 1,
      4 := clip f 0 1, 5 := clip g (- 1) 1])"
  by (simp add: within_bounds_def nstates_def nsectors_def clip_def)

lemma observe_unfold:
  "(\<exists>err. observe k e = Inl err \<and> err \<noteq> IndexError) \<or>
   (\<exists>v obst_range obs0. vessel e = Some v \<and> config e ''obst_range'' = Some obst_range
        \<and> within_bounds obs0
        \<and> observe k e = observe_obstacles v obst_range obs0 (obstacles e))"
  unfolding observe_def Let_def
  by (auto split: option.splits intro: initial_obs_within_bounds)

lemma observe_within_bounds:
  assumes "observe k e = Inr obs"
  shows "within_bounds obs"
  using observe_unfold [of k e] assms observe_obstacles_within_bounds by auto

lemma observe_no_IndexError: "observe k e \<noteq> Inl IndexError"
  using observe_unfold [of k e] observe_obstacles_no_IndexError by auto

lemma rotation_preserves_norm:
  "(c * x + s * y)\<^sup>2 + (c * y - s * x)\<^sup>2 = (s\<^sup>2 + c\<^sup>2) * (x\<^sup>2 + y\<^sup>2)" for c s x y :: real
  by (simp add: power2_eq_square algebra_simps)

lemma norm3_distance_vec:
  "norm3 (distance_vec v obst) = norm2 (sub2 (obst_position obst) (position v))"
proof -
  let ?x = "fst (obst_position obst) - fst (position v)"
  let ?y = "snd (obst_position obst) - snd (position v)"
  let ?c = "cos (heading v)" and ?s = "sin (heading v)"
  have "distance_vec v obst = (?c * ?x + ?s * ?y, ?c * ?y - ?s * ?x, 0)"
    by (simp add: distance_vec_def Rzyx_def dot3_def)
  moreover have "(?c * ?x + ?s * ?y)\<^sup>2 + (?c * ?y - ?s * ?x)\<^sup>2 = ?x\<^sup>2 + ?y\<^sup>2"
    by (simp only: rotation_preserves_norm sin_cos_squared_add mult_1)
  ultimately show ?thesis
    by (simp add: norm3_def norm2_def sub2_def)
qed

lemma observe_obst_far:
  assumes "obst_range + obst_radius obst \<le> norm2 (sub2 (obst_position obst) (position v))"
  shows "observe_obst v obst_range obs obst = Inr obs"
  using assms by (simp add: observe_obst_def Let_def norm3_distance_vec)

lemma observe_obstacles_without_far:
  assumes "obst_range + obst_radius obst \<le> norm2 (sub2 (obst_position obst) (position v))"
  shows "observe_obstacles v obst_range obs (before @ obst # after) =
         observe_obstacles v obst_range obs (before @ after)"
proof (induction before arbitrary: obs)
  case Nil
  then show ?case
    by (simp add: observe_obst_far [OF assms])
next
  case (Cons b before)
  then show ?case
    by (simp split: sum.splits)
qed

lemma observe_without_far:
  assumes "vessel e = Some v" and "config e ''obst_range'' = Some obst_range"
    and "obst_range + obst_radius obst \<le> norm2 (sub2 (obst_position obst) (position v))"
  shows "observe k (e\<lparr>obstacles := before @ obst # after\<rparr>) =
         observe k (e\<lparr>obstacles := before @ after\<rparr>)"
  unfolding observe_def Let_def
  by (simp add: assms(1,2) observe_obstacles_without_far [OF assms(3)] split: option.splits)

lemma observe_obst_bearing_one:
  assumes "remapped_bearing (distance_vec v obst) = 1"
  shows "observe_obst v obst_range obs obst = Inr obs"
  using assms by (simp add: observe_obst_def Let_def)

lemma distance_vec_example:
  "distance_vec example_vessel obstacle_ahead = (10, 0, 0)"
  "distance_vec example_vessel obstacle_behind = (- 10, 0, 0)"
  "distance_vec example_vessel obstacle_far = (100, 0, 0)"
  by (simp_all add: distance_vec_def vessel_facts obstacle_ahead_def obstacle_behind_def
      obstacle_far_def Rzyx_def dot3_def)

lemma remapped_bearing_example:
  "remapped_bearing (10, 0, 0) = 1 / 2"
  "remapped_bearing (- 10, 0, 0) = 1"
  by (simp_all add: remapped_bearing_def arctan2_def princip_0 princip_pi)

lemma observe_obst_ahead:
  "observe_obst example_vessel 20 obs obstacle_ahead = Inl (AttributeError ''radius'')"
proof -
  have "obst_radius obstacle_ahead = 5"
    by (simp add: obstacle_ahead_def)
  then show ?thesis
    by (simp add: observe_obst_def Let_def distance_vec_example remapped_bearing_example
        norm3_axis radius_def)
qed

text \<open>
  C5. For an obstacle within range the observation is to hold the closeness
  \<open>1 - clip ((dist - vessel.radius - obst.radius) / obst_range) 0 1\<close> in the sector of its
  bearing. With an obstacle 10 ahead of the vessel and a range of 20, \<open>observe\<close> raises
  when it reads \<open>vessel.radius\<close>, which the vessel does not have.
\<close>

theorem observe_obstacle_ahead_raises:
  "observe example_consts (example_env\<lparr>obstacles := [obstacle_ahead]\<rparr>) =
     Inl (AttributeError ''radius'')"
proof -
  have "observe example_consts (example_env\<lparr>obstacles := [obstacle_ahead]\<rparr>) =
          observe_obstacles example_vessel 20 example_obs [obstacle_ahead]"
    using observe_example [of "example_env\<lparr>obstacles := [obstacle_ahead]\<rparr>" example_vessel]
    by (simp add: example_env_def vessel_facts config_example)
  then show ?thesis
    by (simp add: observe_obst_ahead)
qed

text \<open>
  Since every obstacle that passes the range test and the guard makes \<open>observe\<close> raise,
  an observation that is returned has all its sector channels at zero.
\<close>

lemma observe_obst_returns_unchanged:
  assumes "observe_obst v obst_range obs obst = Inr obs'"
  shows "obs' = obs"
  using assms
  by (simp add: observe_obst_def Let_def radius_def split: if_splits)

lemma observe_obstacles_returns_unchanged:
  "observe_obstacles v obst_range obs obsts = Inr obs' \<Longrightarrow> obs' = obs"
proof (induction obsts arbitrary: obs)
  case Nil
  then show ?case by simp
next
  case (Cons obst obsts)
  from Cons.prems obtain obs1 where 1: "observe_obst v obst_range obs obst = Inr obs1"
    and 2: "observe_obstacles v obst_range obs1 obsts = Inr obs'"
    by (auto split: sum.splits)
  from 1 have "obs1 = obs"
    by (rule observe_obst_returns_unchanged)
  with 2 Cons.IH show ?case
    by simp
qed

lemma observe_sectors_zero:
  assumes "observe k e = Inr obs" and "sector < nsectors"
  shows "obs ! (nstates + sector) = 0"
proof -
  have "\<exists>a b c d f g. obs = (replicate (nstates + nsectors) 0)
          [0 := a, 1 := b, 2 := c, 3 := d, 4 := f, 5 := g]"
    using assms(1) unfolding observe_def Let_def
    by (auto split: option.splits dest!: observe_obstacles_returns_unchanged intro!: exI)
  then show ?thesis
    using assms(2) by (auto simp add: nstates_def nsectors_def)
qed

text \<open>
  C10. Under the guard \<open>0 \<le> ang < 1\<close> the sector index
  \<open>nstates + floor (ang * nsectors)\<close> lies among the sector slots of the observation
  (indices 6 to 13), so \<open>observe\<close> never raises \<open>IndexError\<close>; and an obstacle whose remapped
  bearing is exactly 1 is skipped, leaving the observation as it is.
\<close>

theorem sector_index_guarded:
  "(0 \<le> ang \<and> ang < 1 \<longrightarrow>
      int nstates \<le> sector_index ang \<and> sector_index ang < int (nstates + nsectors)) \<and>
   observe k e \<noteq> Inl IndexError \<and>
   (remapped_bearing (distance_vec v obst) = 1 \<longrightarrow>
      observe_obst v obst_range obs obst = Inr obs)"
  using sector_index_bounds [of ang] observe_no_IndexError [of k e]
    observe_obst_bearing_one [of v obst obst_range obs]
  by blast

theorem sector_index_guarded_witness:
  "(0::real) \<le> 1 / 2 \<and> (1 / 2 :: real) < 1 \<and>
   sector_index (1 / 2) = 10 \<and>
   remapped_bearing (distance_vec example_vessel obstacle_behind) = 1 \<and>
   observe_obst example_vessel 20 example_obs obstacle_behind = Inr example_obs \<and>
   observe example_consts (example_env\<lparr>obstacles := [obstacle_behind]\<rparr>) = Inr example_obs"
proof -
  have b: "remapped_bearing (distance_vec example_vessel obstacle_behind) = 1"
    by (simp add: distance_vec_example remapped_bearing_example)
  have i: "sector_index (1 / 2) = 10"
    by (simp add: sector_index_def nstates_def nsectors_def)
  have o: "observe_obst example_vessel 20 example_obs obstacle_behind = Inr example_obs"
    using sector_index_guarded [of "1 / 2" example_consts example_env example_vessel
        obstacle_behind 20 example_obs] b
    by simp
  have "observe example_consts (example_env\<lparr>obstacles := [obstacle_behind]\<rparr>) =
          observe_obstacles example_vessel 20 example_obs [obstacle_behind]"
    using observe_example [of "example_env\<lparr>obstacles := [obstacle_behind]\<rparr>" example_vessel]
    by (simp add: example_env_def vessel_facts config_example)
  then show ?thesis
    using b i o by simp
qed

section \<open>The bounds of the observation, proved\<close>

lemma norm2_axis: "norm2 (x, 0) = \<bar>x\<bar>"
  by (simp add: norm2_def)

text \<open>
  C4. Every channel of an observation lies within its bounds: channels 0 and 4 and the
  sector channels in \<open>[0, 1]\<close>, channels 1, 2, 3 and 5 in \<open>[-1, 1]\<close>. An obstacle whose
  distance from the vessel is at least \<open>obst_range + obst.radius\<close> contributes nothing: the
  observation is the one made without it. The divisors \<open>max_speed\<close> and \<open>los_dist\<close> are
  taken to be different from zero, where the division of the reals and the one of the
  source agree.
\<close>

theorem observe_channels_bounded:
  assumes "const_MAX_SPEED k \<noteq> 0" and "config e ''los_dist'' \<noteq> Some 0"
  shows "(observe k e = Inr obs \<longrightarrow>
            length obs = nstates + nsectors \<and>
            0 \<le> obs ! 0 \<and> obs ! 0 \<le> 1 \<and>
            - 1 \<le> obs ! 1 \<and> obs ! 1 \<le> 1 \<and>
            - 1 \<le> obs ! 2 \<and> obs ! 2 \<le> 1 \<and>
            - 1 \<le> obs ! 3 \<and> obs ! 3 \<le> 1 \<and>
            0 \<le> obs ! 4 \<and> obs ! 4 \<le> 1 \<and>
            - 1 \<le> obs ! 5 \<and> obs ! 5 \<le> 1 \<and>
            (\<forall>sector<nsectors.
               0 \<le> obs ! (nstates + sector) \<and> obs ! (nstates + sector) \<le> 1)) \<and>
         (vessel e = Some v \<and> config e ''obst_range'' = Some obst_range \<and>
          obst_range + obst_radius obst \<le> norm2 (sub2 (obst_position obst) (position v)) \<longrightarrow>
            observe k (e\<lparr>obstacles := before @ obst # after\<rparr>) =
            observe k (e\<lparr>obstacles := before @ after\<rparr>))"
proof (intro conjI impI)
  assume "observe k e = Inr obs"
  then have "within_bounds obs"
    by (rule observe_within_bounds)
  then show "length obs = nstates + nsectors"
    "0 \<le> obs ! 0" "obs ! 0 \<le> 1" "- 1 \<le> obs ! 1" "obs ! 1 \<le> 1"
    "- 1 \<le> obs ! 2" "obs ! 2 \<le> 1" "- 1 \<le> obs ! 3" "obs ! 3 \<le> 1"
    "0 \<le> obs ! 4" "obs ! 4 \<le> 1" "- 1 \<le> obs ! 5" "obs ! 5 \<le> 1"
    "\<forall>sector<nsectors. 0 \<le> obs ! (nstates + sector) \<and> obs ! (nstates + sector) \<le> 1"
    by (simp_all add: within_bounds_def)
next
  assume "vessel e = Some v \<and> config e ''obst_range'' = Some obst_range \<and>
          obst_range + obst_radius obst \<le> norm2 (sub2 (obst_position obst) (position v))"
  then have "vessel e = Some v" and "config e ''obst_range'' = Some obst_range"
    and "obst_range + obst_radius obst \<le> norm2 (sub2 (obst_position obst) (position v))"
    by blast+
  then show "observe k (e\<lparr>obstacles := before @ obst # after\<rparr>) =
             observe k (e\<lparr>obstacles := before @ after\<rparr>)"
    by (rule observe_without_far)
qed

theorem observe_channels_bounded_witness:
  "const_MAX_SPEED example_consts \<noteq> 0 \<and>
   config example_env ''los_dist'' \<noteq> Some 0 \<and>
   observe example_consts example_env = Inr example_obs \<and>
   within_bounds example_obs \<and>
   20 + obst_radius obstacle_far
     \<le> norm2 (sub2 (obst_position obstacle_far) (position example_vessel)) \<and>
   observe example_consts (example_env\<lparr>obstacles := [obstacle_far]\<rparr>) = Inr example_obs"
proof -
  have m: "const_MAX_SPEED example_consts \<noteq> 0"
    by (simp add: example_consts_def)
  have l: "config example_env ''los_dist'' \<noteq> Some 0"
    by (simp add: example_env_def config_example)
  have o: "observe example_consts example_env = Inr example_obs"
    using observe_example [of example_env example_vessel]
    by (simp add: example_env_def vessel_facts config_example)
  have f: "20 + obst_radius obstacle_far
             \<le> norm2 (sub2 (obst_position obstacle_far) (position example_vessel))"
    by (simp add: obstacle_far_def vessel_facts sub2_def norm2_axis)
  have v: "vessel example_env = Some example_vessel"
    "config example_env ''obst_range'' = Some 20"
    by (simp_all add: example_env_def config_example)
  note t = observe_channels_bounded [OF m l, of example_obs example_vessel 20 obstacle_far "[]" "[]"]
  have w: "within_bounds example_obs"
    using t o by (simp add: within_bounds_def)
  have "observe example_consts (example_env\<lparr>obstacles := [obstacle_far]\<rparr>) =
          observe example_consts (example_env\<lparr>obstacles := []\<rparr>)"
    using t v f by simp
  also have "example_env\<lparr>obstacles := []\<rparr> = example_env"
    by (simp add: example_env_def)
  finally show ?thesis
    using m l o w f by simp
qed

section \<open>Missing configuration options\<close>

lemma observe_reads_two_options:
  assumes "key \<noteq> ''los_dist''" and "key \<noteq> ''obst_range''"
  shows "observe k (e\<lparr>config := (config e)(key := x)\<rparr>) = observe k e"
  using assms by (simp add: observe_def cong: option.case_cong)

lemma closeness_rewards_missing:
  assumes "cfg ''reward_closeness'' = None" and "nstates < length obs"
  shows "closeness_rewards cfg obs [0..<nsectors] r = Inl (KeyError ''reward_closeness'')"
proof -
  have "[0..<nsectors] = 0 # [1..<nsectors]"
    by (simp add: nsectors_def upt_rec)
  moreover have "getitem obs (int (nstates + 0)) = Inr (obs ! (nstates + 0))"
    using assms(2) by (intro getitem_nat) simp
  ultimately show ?thesis
    using assms(1) by simp
qed

lemma missing_option_in_observe_or_step_reward:
  assumes "key \<in> set recognised_options"
    and "config e key = None"
    and "\<forall>other \<in> set recognised_options. other \<noteq> key \<longrightarrow> config e other \<noteq> None"
  shows "(key \<in> {''los_dist'', ''obst_range''} \<longrightarrow> observe k e = Inl (KeyError key)) \<and>
         (key \<notin> {''los_dist'', ''obst_range''} \<longrightarrow>
            observe k (e\<lparr>config := (config e)(key \<mapsto> x)\<rparr>) = observe k e) \<and>
         (key = ''reward_closeness'' \<and> step_done e = Inr done \<and>
          length obs = nstates + nsectors \<longrightarrow>
            step_reward k e obs delta_path_prog = Inl (KeyError key)) \<and>
         (key \<in> {''reward_ds'', ''cruise_speed'', ''reward_cross_track_error'',
                  ''reward_surge_error''} \<and>
          step_done e = Inr False \<and> length obs = nstates + nsectors \<longrightarrow>
            step_reward k e obs delta_path_prog = Inl (KeyError key))"
proof (intro conjI impI)
  assume "key \<in> {''los_dist'', ''obst_range''}"
  then show "observe k e = Inl (KeyError key)"
    using assms(2,3) by (auto simp add: observe_def recognised_options_def)
next
  assume "key \<notin> {''los_dist'', ''obst_range''}"
  then show "observe k (e\<lparr>config := (config e)(key \<mapsto> x)\<rparr>) = observe k e"
    by (intro observe_reads_two_options) simp_all
next
  assume a: "key = ''reward_closeness'' \<and> step_done e = Inr done \<and>
             length obs = nstates + nsectors"
  then have "nstates < length obs"
    by (simp add: nsectors_def)
  then have c: "closeness_rewards (config e) obs [0..<nsectors] r =
                  Inl (KeyError ''reward_closeness'')" for r
    using assms(2) a by (intro closeness_rewards_missing) simp_all
  obtain w where "config e ''reward_ds'' = Some w"
    using assms(3) a by (auto simp add: recognised_options_def)
  then show "step_reward k e obs delta_path_prog = Inl (KeyError key)"
    using a c by (simp add: step_reward_def)
next
  assume a: "key \<in> {''reward_ds'', ''cruise_speed'', ''reward_cross_track_error'',
                      ''reward_surge_error''} \<and>
             step_done e = Inr False \<and> length obs = nstates + nsectors"
  then have len: "length obs = nstates + nsectors" and d: "step_done e = Inr False"
    by simp_all
  have g: "getitem obs 0 = Inr (obs ! 0)" "getitem obs 3 = Inr (obs ! 3)"
    using len getitem_nat [of 0 obs] getitem_nat [of 3 obs]
    by (simp_all add: nstates_def)
  obtain v where v: "vessel e = Some v"
    using step_done_iff [OF d] by blast
  obtain w where w: "config e ''reward_closeness'' = Some w"
    using assms(3) a by (auto simp add: recognised_options_def)
  have c: "closeness_rewards (config e) obs [0..<nsectors] r =
             Inr (r + (\<Sum>s<nsectors. w * (obs ! (nstates + s))\<^sup>2))" for r
    using w len by (rule closeness_rewards_sectors)
  consider "key = ''reward_ds''" | "key = ''cruise_speed''"
    | "key = ''reward_cross_track_error''" | "key = ''reward_surge_error''"
    using a by blast
  then show "step_reward k e obs delta_path_prog = Inl (KeyError key)"
  proof cases
    case 1
    then show ?thesis
      using assms(2) d by (simp add: step_reward_def)
  next
    case 2
    moreover obtain w1 where "config e ''reward_ds'' = Some w1"
      using assms(3) 2 by (auto simp add: recognised_options_def)
    ultimately show ?thesis
      using assms(2) d c g by (simp add: step_reward_def)
  next
    case 3
    moreover obtain w1 w2 where "config e ''reward_ds'' = Some w1"
      "config e ''cruise_speed'' = Some w2"
      using assms(3) 3 by (auto simp add: recognised_options_def)
    ultimately show ?thesis
      using assms(2) d c g v by (simp add: step_reward_def)
  next
    case 4
    moreover obtain w1 w2 w3 where "config e ''reward_ds'' = Some w1"
      "config e ''cruise_speed'' = Some w2" "config e ''reward_cross_track_error'' = Some w3"
      using assms(3) 4 by (auto simp add: recognised_options_def)
    ultimately show ?thesis
      using assms(2) d c g v by (simp add: step_reward_def)
  qed
qed

lemma config_without_reward_ds:
  "(example_config(''reward_ds'' := None)) ''reward_ds'' = None"
  "(example_config(''reward_ds'' := None)) ''los_dist'' = Some 10"
  "(example_config(''reward_ds'' := None)) ''obst_range'' = Some 20"
  "\<forall>other \<in> set recognised_options.
     other \<noteq> ''reward_ds'' \<longrightarrow> (example_config(''reward_ds'' := None)) other \<noteq> None"
  by (simp_all add: recognised_options_def config_example del: not_None_eq)

lemma generate_with_path_missing_t_step:
  assumes "config e ''t_step'' = None"
  shows "snd (generate_with_path e p g0) = Inl (KeyError ''t_step'')"
  using assms by (simp add: generate_with_path_def Let_def)

lemma generate_with_path_missing_nobstacles:
  assumes "config e ''t_step'' = Some ts" and "config e ''nobstacles'' = None"
  shows "snd (generate_with_path e p g0) = Inl (KeyError ''nobstacles'')"
  using assms by (simp add: generate_with_path_def Let_def)

lemma step_done_config: "step_done (e\<lparr>config := c\<rparr>) = step_done e"
  by (simp add: step_done_def cong: option.case_cong sum.case_cong if_cong)

lemma closeness_rewards_other_option:
  assumes "key \<noteq> ''reward_closeness''"
  shows "closeness_rewards (cfg(key := x)) obs secs r = closeness_rewards cfg obs secs r"
  using assms
  by (induction secs arbitrary: r) (simp_all split: sum.splits option.splits)

lemma step_reward_other_option:
  assumes "key \<noteq> ''reward_ds''" and "key \<noteq> ''reward_closeness''"
    and "key \<noteq> ''cruise_speed''" and "key \<noteq> ''reward_cross_track_error''"
    and "key \<noteq> ''reward_surge_error''"
  shows "step_reward k (e\<lparr>config := (config e)(key := x)\<rparr>) obs d = step_reward k e obs d"
  using assms
  by (simp add: step_reward_def step_done_config closeness_rewards_other_option
      cong: sum.case_cong option.case_cong if_cong)

lemma generate_with_path_other_option:
  assumes "key \<noteq> ''t_step''" and "key \<noteq> ''nobstacles''"
  shows "snd (generate_with_path (e\<lparr>config := (config e)(key := x)\<rparr>) p g0) =
         snd (generate_with_path e p g0)"
  using assms
  by (simp add: generate_with_path_def Let_def split: option.splits)

lemma observe_config_fields:
  assumes "c ''los_dist'' = config e ''los_dist''" and "c ''obst_range'' = config e ''obst_range''"
  shows "observe k (e\<lparr>config := c\<rparr>) = observe k e"
  using assms by (simp add: observe_def cong: option.case_cong)

lemma step_other_option:
  assumes "key \<noteq> ''los_dist''" and "key \<noteq> ''obst_range''"
    and "key \<noteq> ''reward_ds''" and "key \<noteq> ''reward_closeness''"
    and "key \<noteq> ''cruise_speed''" and "key \<noteq> ''reward_cross_track_error''"
    and "key \<noteq> ''reward_surge_error''"
  shows "snd (step lib k (e\<lparr>config := (config e)(key := x)\<rparr>) action) =
         snd (step lib k e action)"
proof (cases "vessel e")
  case None
  then show ?thesis
    by (simp add: step_def Let_def)
next
  case (Some v)
  note v = this
  show ?thesis
  proof (cases "path e")
    case None
    then show ?thesis
      using v by (simp add: step_def Let_def)
  next
    case (Some p)
    let ?v = "AUV2D_step k v action"
    let ?prog = "get_closest_arclength lib p (position ?v)"
    let ?e3 = "e\<lparr>last_action := Some action, vessel := Some ?v, path_prog := ?prog\<rparr>"
    let ?c = "(config e)(key := x)"
    have e3: "e\<lparr>config := ?c, last_action := Some action, vessel := Some ?v, path_prog := ?prog\<rparr>
              = ?e3\<lparr>config := (config ?e3)(key := x)\<rparr>"
      by simp
    have o: "observe k (?e3\<lparr>config := (config ?e3)(key := x)\<rparr>) = observe k ?e3"
      using assms(1,2) by (rule observe_reads_two_options)
    have r: "step_reward k (?e3\<lparr>config := (config ?e3)(key := x)\<rparr>) obs d =
             step_reward k ?e3 obs d" for obs d
      using assms(3-7) by (rule step_reward_other_option)
    have l: "snd (step lib k (e\<lparr>config := ?c\<rparr>) action) =
             (case observe k (?e3\<lparr>config := (config ?e3)(key := x)\<rparr>) of
                Inl err \<Rightarrow> Inl err
              | Inr obs \<Rightarrow>
                 (case step_reward k (?e3\<lparr>config := (config ?e3)(key := x)\<rparr>) obs
                         (?prog - path_prog e) of
                    Inl err \<Rightarrow> Inl err
                  | Inr (done, r) \<Rightarrow> Inr (obs, r, done, [])))"
      using v Some unfolding e3 [symmetric]
      by (simp add: step_def Let_def split: sum.splits prod.splits)
    have rr: "snd (step lib k e action) =
             (case observe k ?e3 of
                Inl err \<Rightarrow> Inl err
              | Inr obs \<Rightarrow>
                 (case step_reward k ?e3 obs (?prog - path_prog e) of
                    Inl err \<Rightarrow> Inl err
                  | Inr (done, r) \<Rightarrow> Inr (obs, r, done, [])))"
      using v Some
      by (simp add: step_def Let_def split: sum.splits prod.splits)
    show ?thesis
      unfolding l rr o r ..
  qed
qed

lemma config_without_t_step:
  "(example_config(''t_step'' := None)) ''t_step'' = None"
  "\<forall>other \<in> set recognised_options.
     other \<noteq> ''t_step'' \<longrightarrow> (example_config(''t_step'' := None)) other \<noteq> None"
  by (simp_all add: recognised_options_def config_example del: not_None_eq)

text \<open>
  C8 (as amended). When exactly one recognised option is missing from the configuration,
  no default takes its place, and what happens depends on where the code reads the option.
  \<open>observe\<close> reads \<open>los_dist\<close> and \<open>obst_range\<close> and no other option: it raises
  \<open>KeyError\<close> with the name of the missing one. \<open>step_reward\<close> raises \<open>KeyError\<close> with
  the name of the missing option on every step for \<open>reward_closeness\<close>, and on every step
  that does not end the episode for \<open>reward_ds\<close>, \<open>cruise_speed\<close>,
  \<open>reward_cross_track_error\<close> and \<open>reward_surge_error\<close>: the absence of these five shows
  during \<open>step\<close>. The statements of \<open>generate\<close> that follow the construction of the path
  raise \<open>KeyError\<close> with the name of the missing option for \<open>t_step\<close> and \<open>nobstacles\<close>.
  \<open>reward_collision\<close> is read nowhere: \<open>observe\<close>, \<open>step_reward\<close>, \<open>step\<close> and these
  statements of \<open>generate\<close> give the same result with it as without it.
\<close>

theorem missing_option_raises_where_read:
  assumes "key \<in> set recognised_options"
    and "config e key = None"
    and "\<forall>other \<in> set recognised_options. other \<noteq> key \<longrightarrow> config e other \<noteq> None"
  shows "(key \<in> {''los_dist'', ''obst_range''} \<longrightarrow> observe k e = Inl (KeyError key)) \<and>
         (key \<notin> {''los_dist'', ''obst_range''} \<longrightarrow>
            observe k (e\<lparr>config := (config e)(key \<mapsto> x)\<rparr>) = observe k e) \<and>
         (key = ''reward_closeness'' \<and> step_done e = Inr done \<and>
          length obs = nstates + nsectors \<longrightarrow>
            step_reward k e obs delta_path_prog = Inl (KeyError key)) \<and>
         (key \<in> {''reward_ds'', ''cruise_speed'', ''reward_cross_track_error'',
                  ''reward_surge_error''} \<and>
          step_done e = Inr False \<and> length obs = nstates + nsectors \<longrightarrow>
            step_reward k e obs delta_path_prog = Inl (KeyError key)) \<and>
         (key \<in> {''t_step'', ''nobstacles''} \<longrightarrow>
            snd (generate_with_path e p g0) = Inl (KeyError key)) \<and>
         (key = ''reward_collision'' \<longrightarrow>
            step_reward k (e\<lparr>config := (config e)(key \<mapsto> x)\<rparr>) obs delta_path_prog =
              step_reward k e obs delta_path_prog \<and>
            snd (step lib k (e\<lparr>config := (config e)(key \<mapsto> x)\<rparr>) action) =
              snd (step lib k e action) \<and>
            snd (generate_with_path (e\<lparr>config := (config e)(key \<mapsto> x)\<rparr>) p g0) =
              snd (generate_with_path e p g0))"
proof -
  note first = missing_option_in_observe_or_step_reward [OF assms, of k x "done" obs delta_path_prog]
  have generate: "snd (generate_with_path e p g0) = Inl (KeyError key)"
    if "key \<in> {''t_step'', ''nobstacles''}"
  proof (cases "key = ''t_step''")
    case True
    then show ?thesis
      using assms(2) by (simp add: generate_with_path_missing_t_step)
  next
    case False
    then have n: "key = ''nobstacles''"
      using that by simp
    then obtain ts where "config e ''t_step'' = Some ts"
      using assms(3) by (auto simp add: recognised_options_def)
    then show ?thesis
      using assms(2) n by (simp add: generate_with_path_missing_nobstacles)
  qed
  have unread: "step_reward k (e\<lparr>config := (config e)(key \<mapsto> x)\<rparr>) obs delta_path_prog =
                  step_reward k e obs delta_path_prog \<and>
                snd (step lib k (e\<lparr>config := (config e)(key \<mapsto> x)\<rparr>) action) =
                  snd (step lib k e action) \<and>
                snd (generate_with_path (e\<lparr>config := (config e)(key \<mapsto> x)\<rparr>) p g0) =
                  snd (generate_with_path e p g0)"
    if "key = ''reward_collision''"
  proof (intro conjI)
    show "step_reward k (e\<lparr>config := (config e)(key \<mapsto> x)\<rparr>) obs delta_path_prog =
          step_reward k e obs delta_path_prog"
      by (rule step_reward_other_option) (simp_all add: that)
    show "snd (step lib k (e\<lparr>config := (config e)(key \<mapsto> x)\<rparr>) action) =
          snd (step lib k e action)"
      by (rule step_other_option) (simp_all add: that)
    show "snd (generate_with_path (e\<lparr>config := (config e)(key \<mapsto> x)\<rparr>) p g0) =
          snd (generate_with_path e p g0)"
      by (rule generate_with_path_other_option) (simp_all add: that)
  qed
  have generate_imp: "key \<in> {''t_step'', ''nobstacles''} \<longrightarrow>
                        snd (generate_with_path e p g0) = Inl (KeyError key)"
    by (rule impI) (rule generate)
  have unread_imp: "key = ''reward_collision'' \<longrightarrow>
            step_reward k (e\<lparr>config := (config e)(key \<mapsto> x)\<rparr>) obs delta_path_prog =
              step_reward k e obs delta_path_prog \<and>
            snd (step lib k (e\<lparr>config := (config e)(key \<mapsto> x)\<rparr>) action) =
              snd (step lib k e action) \<and>
            snd (generate_with_path (e\<lparr>config := (config e)(key \<mapsto> x)\<rparr>) p g0) =
              snd (generate_with_path e p g0)"
    by (rule impI) (rule unread)
  show ?thesis
    by (rule conjI [OF first [THEN conjunct1]
          conjI [OF first [THEN conjunct2, THEN conjunct1]
            conjI [OF first [THEN conjunct2, THEN conjunct2, THEN conjunct1]
              conjI [OF first [THEN conjunct2, THEN conjunct2, THEN conjunct2]
                conjI [OF generate_imp unread_imp]]]]])
qed

theorem missing_option_raises_where_read_witness:
  "''reward_ds'' \<in> set recognised_options \<and>
   config (example_env\<lparr>config := example_config(''reward_ds'' := None)\<rparr>) ''reward_ds'' = None \<and>
   step_done (example_env\<lparr>config := example_config(''reward_ds'' := None)\<rparr>) = Inr False \<and>
   step_reward example_consts (example_env\<lparr>config := example_config(''reward_ds'' := None)\<rparr>)
     example_obs 0 = Inl (KeyError ''reward_ds'') \<and>
   observe example_consts (example_env\<lparr>config := example_config(''reward_ds'' := None)\<rparr>) =
     Inr example_obs \<and>
   ''t_step'' \<in> set recognised_options \<and>
   config (example_env\<lparr>config := example_config(''t_step'' := None)\<rparr>) ''t_step'' = None \<and>
   snd (generate_with_path (example_env\<lparr>config := example_config(''t_step'' := None)\<rparr>)
          example_path \<lparr>draws = (\<lambda>n. 1 / 2), drawn = 0\<rparr>) = Inl (KeyError ''t_step'')"
proof -
  let ?e = "example_env\<lparr>config := example_config(''reward_ds'' := None)\<rparr>"
  let ?t = "example_env\<lparr>config := example_config(''t_step'' := None)\<rparr>"
  let ?g = "\<lparr>draws = (\<lambda>n. 1 / 2), drawn = 0\<rparr>"
  have k: "''reward_ds'' \<in> set recognised_options"
    by (simp add: recognised_options_def)
  have n: "config ?e ''reward_ds'' = None"
    by simp
  have p: "\<forall>other \<in> set recognised_options. other \<noteq> ''reward_ds'' \<longrightarrow> config ?e other \<noteq> None"
    using config_without_reward_ds(4) by simp
  have d: "step_done ?e = Inr False"
    using step_done_example [of ?e example_vessel]
    by (simp add: example_env_def vessel_facts)
  have l: "length example_obs = nstates + nsectors"
    by (simp add: example_obs_def nstates_def nsectors_def)
  have o: "observe example_consts ?e = Inr example_obs"
    using observe_example [of ?e example_vessel]
    by (simp add: example_env_def vessel_facts config_example)
  have r: "step_reward example_consts ?e example_obs 0 = Inl (KeyError ''reward_ds'')"
    using missing_option_raises_where_read [OF k n p,
        of example_consts 1 False example_obs 0 example_path ?g example_library "(0, 0)"]
      d l by simp
  have kt: "''t_step'' \<in> set recognised_options"
    by (simp add: recognised_options_def)
  have nt: "config ?t ''t_step'' = None"
    by simp
  have pt: "\<forall>other \<in> set recognised_options. other \<noteq> ''t_step'' \<longrightarrow> config ?t other \<noteq> None"
    using config_without_t_step(2) by simp
  have g: "snd (generate_with_path ?t example_path ?g) = Inl (KeyError ''t_step'')"
    using missing_option_raises_where_read [OF kt nt pt,
        of example_consts 1 False example_obs 0 example_path ?g example_library "(0, 0)"]
    by simp
  show ?thesis
    using k n d o r kt nt g by simp
qed

text \<open>
  C8 (as stated) fails: with \<open>reward_ds\<close> missing, the constructor does not raise an error
  that names \<open>reward_ds\<close>, the observation is made as with the full configuration, and it
  is \<open>step\<close> that raises \<open>KeyError\<close> for \<open>reward_ds\<close>.
\<close>

theorem missing_reward_ds_counterexample:
  "(example_config(''reward_ds'' := None)) ''reward_ds'' = None \<and>
   AUVEnv_init example_library example_consts (example_config(''reward_ds'' := None))
     \<noteq> Inl (KeyError ''reward_ds'') \<and>
   observe example_consts (example_env\<lparr>config := example_config(''reward_ds'' := None)\<rparr>) =
     Inr example_obs \<and>
   snd (step example_library example_consts
          (example_env\<lparr>config := example_config(''reward_ds'' := None)\<rparr>) (0, 0)) =
     Inl (KeyError ''reward_ds'')"
proof -
  let ?cfg = "example_config(''reward_ds'' := None)"
  let ?v = "AUV2D_step example_consts example_vessel (0, 0)"
  let ?e3 = "\<lparr>config = ?cfg, vessel = Some ?v, path = Some example_path,
              np_random = Some \<lparr>draws = (\<lambda>n. 1 / 2), drawn = 0\<rparr>, obstacles = [],
              reward = 0, path_prog = 0, last_action = Some (0, 0)\<rparr>"
  have i: "AUVEnv_init example_library example_consts ?cfg \<noteq> Inl (KeyError ''reward_ds'')"
    by (simp add: AUVEnv_init_def reset_def generate_raises Let_def)
  have o: "observe example_consts (example_env\<lparr>config := ?cfg\<rparr>) = Inr example_obs"
    using observe_example [of "example_env\<lparr>config := ?cfg\<rparr>" example_vessel]
    by (simp add: example_env_def vessel_facts config_example)
  have prog: "get_closest_arclength example_library example_path (position ?v) = 0"
    by (simp add: get_closest_arclength_def example_library_def)
  have o3: "observe example_consts ?e3 = Inr example_obs"
    by (simp add: observe_example [where v = ?v] stepped_vessel_facts config_example)
  have "step_done ?e3 = Inr False"
    by (simp add: step_done_example [where v = ?v] stepped_vessel_facts)
  then have r: "step_reward example_consts ?e3 example_obs 0 = Inl (KeyError ''reward_ds'')"
    by (simp add: step_reward_def)
  have "snd (step example_library example_consts (example_env\<lparr>config := ?cfg\<rparr>) (0, 0)) =
          Inl (KeyError ''reward_ds'')"
    unfolding step_def
    by (simp add: Let_def example_env_def prog o3 r)
  then show ?thesis
    using i o by (simp add: config_without_reward_ds)
qed

end
